theory Spec2Isabelle
  imports Complex_Main
begin

section \<open>JavaScript values as the pages use them\<close>

text \<open>
  The pages of the SmartWater-AI front end (Login, Dashboard, Monitor and
  DistributionDashboard) are React function components. Their logic is a handful of
  event handlers over component state, \<open>localStorage\<close>, the router's \<open>navigate\<close> and
  \<open>axios\<close>. The embedding keeps that shape: a component is a record of its
  \<open>useState\<close> cells, the browser is a record of the storage, the navigation log and
  the log of issued requests, and an \<open>async\<close> handler is split at its \<open>await\<close> into the
  part that runs on the click and the part that runs when the response arrives.

  A component reads \<open>localStorage\<close> on every render and its handlers close over what
  that render read; the model reads the storage when the handler runs. The two agree
  because the only writer on these screens is logout, which also leaves the screen. A
  screen stays mounted in the model after \<open>navigate\<close>, so the traces of the model
  include those of the page.

  A number is a double. Only its class matters to the code below (is it \<open>NaN\<close>, is
  it zero), so the finite ones are rationals; \<open>Fin 0\<close> stands for both zeros, which
  JavaScript's truthiness does not tell apart.
\<close>

datatype jsnum = NaN | PosInf | NegInf | Fin rat

datatype val =
    JUndefined
  | JNull
  | JBool bool
  | JNum jsnum
  | JStr string
  | JArr "val list"
  | JObj "(string \<times> val) list"

text \<open>
  What the language itself provides and the repository only calls: \<open>parseFloat\<close> on a
  string, the decimal rendering of a number, and the number a string converts to in a
  comparison. They are parameters of the model.
\<close>

record builtins =
  parseFloat_str :: "string \<Rightarrow> jsnum"
  number_to_string :: "jsnum \<Rightarrow> string"
  string_to_number :: "string \<Rightarrow> jsnum"

datatype exn = TypeError | AxiosError "(nat \<times> val) option"

text \<open>
  An axios call either resolves with the decoded body (\<open>res.data\<close>) or rejects with an
  error whose \<open>response\<close> is absent (no answer from the network) or carries the HTTP
  status and the body.
\<close>

datatype response = Resolved val | Rejected "(nat \<times> val) option"

fun truthy :: "val \<Rightarrow> bool" where
  "truthy JUndefined = False"
| "truthy JNull = False"
| "truthy (JBool b) = b"
| "truthy (JNum n) = (n \<noteq> NaN \<and> n \<noteq> Fin 0)"
| "truthy (JStr s) = (s \<noteq> [])"
| "truthy (JArr xs) = True"
| "truthy (JObj kvs) = True"

definition or_else :: "val \<Rightarrow> val \<Rightarrow> val" where
  \<comment> \<open>\<open>a || b\<close>\<close>
  "or_else a b = (if truthy a then a else b)"

fun nullish :: "val \<Rightarrow> bool" where
  "nullish JUndefined = True"
| "nullish JNull = True"
| "nullish v = False"

fun digit_of :: "char \<Rightarrow> nat option" where
  "digit_of c =
     (let n = (of_char c :: nat)
      in if 48 \<le> n \<and> n \<le> 57 then Some (n - 48) else None)"

fun digits_value :: "nat \<Rightarrow> string \<Rightarrow> nat option" where
  "digits_value acc [] = Some acc"
| "digits_value acc (c # cs) =
     (case digit_of c of None \<Rightarrow> None | Some d \<Rightarrow> digits_value (10 * acc + d) cs)"

definition array_index :: "string \<Rightarrow> nat option" where
  \<comment> \<open>a property key that is a canonical array index: decimal, no leading zero\<close>
  "array_index k =
     (if k = [] then None
      else if hd k = CHR ''0'' \<and> tl k \<noteq> [] then None
      else digits_value 0 k)"

fun get_prop :: "val \<Rightarrow> string \<Rightarrow> val" where
  \<comment> \<open>\<open>o[k]\<close> on a value that is neither \<open>null\<close> nor \<open>undefined\<close>; own data
      properties only (an inherited function is not a value of this model)\<close>
  "get_prop (JObj kvs) k = (case map_of kvs k of None \<Rightarrow> JUndefined | Some v \<Rightarrow> v)"
| "get_prop (JArr xs) k =
     (if k = ''length'' then JNum (Fin (of_nat (length xs)))
      else case array_index k of
             None \<Rightarrow> JUndefined
           | Some i \<Rightarrow> if i < length xs then xs ! i else JUndefined)"
| "get_prop (JStr s) k =
     (if k = ''length'' then JNum (Fin (of_nat (length s)))
      else case array_index k of
             None \<Rightarrow> JUndefined
           | Some i \<Rightarrow> if i < length s then JStr [s ! i] else JUndefined)"
| "get_prop v k = JUndefined"

definition get :: "val \<Rightarrow> string \<Rightarrow> exn + val" where
  \<comment> \<open>\<open>o.k\<close>: a TypeError on \<open>null\<close> and \<open>undefined\<close>\<close>
  "get v k = (if nullish v then Inl TypeError else Inr (get_prop v k))"

definition opt_get :: "val \<Rightarrow> string \<Rightarrow> val" where
  \<comment> \<open>\<open>o?.k\<close>\<close>
  "opt_get v k = (if nullish v then JUndefined else get_prop v k)"

fun join_with :: "string \<Rightarrow> string list \<Rightarrow> string" where
  "join_with sep [] = []"
| "join_with sep [x] = x"
| "join_with sep (x # y # ys) = x @ sep @ join_with sep (y # ys)"

fun to_string :: "builtins \<Rightarrow> val \<Rightarrow> string" where
  \<comment> \<open>\<open>String(v)\<close>, as a template literal and \<open>localStorage.setItem\<close> apply it\<close>
  "to_string B JUndefined = ''undefined''"
| "to_string B JNull = ''null''"
| "to_string B (JBool b) = (if b then ''true'' else ''false'')"
| "to_string B (JNum n) = number_to_string B n"
| "to_string B (JStr s) = s"
| "to_string B (JArr xs) =
     join_with '','' (map (\<lambda>x. if nullish x then [] else to_string B x) xs)"
| "to_string B (JObj kvs) = ''[object Object]''"

definition hex_digit :: "nat \<Rightarrow> char" where
  "hex_digit n = (''0123456789abcdef'') ! (n mod 16)"

definition escape_char :: "char \<Rightarrow> string" where
  "escape_char c =
     (if c = CHR 0x22 then [CHR 0x5C, CHR 0x22]
      else if c = CHR 0x5C then [CHR 0x5C, CHR 0x5C]
      else if c = CHR 0x08 then [CHR 0x5C, CHR ''b'']
      else if c = CHR 0x0C then [CHR 0x5C, CHR ''f'']
      else if c = CHR 0x0A then [CHR 0x5C, CHR ''n'']
      else if c = CHR 0x0D then [CHR 0x5C, CHR ''r'']
      else if c = CHR 0x09 then [CHR 0x5C, CHR ''t'']
      else if (of_char c :: nat) < 32
        then [CHR 0x5C, CHR ''u'', CHR ''0'', CHR ''0'',
              hex_digit (of_char c div 16), hex_digit (of_char c)]
      else [c])"

definition quote :: "string \<Rightarrow> string" where
  "quote s = [CHR 0x22] @ concat (map escape_char s) @ [CHR 0x22]"

fun stringify :: "builtins \<Rightarrow> val \<Rightarrow> string option" where
  \<comment> \<open>\<open>JSON.stringify\<close>; \<open>None\<close> is its \<open>undefined\<close>\<close>
  "stringify B JUndefined = None"
| "stringify B JNull = Some ''null''"
| "stringify B (JBool b) = Some (if b then ''true'' else ''false'')"
| "stringify B (JNum n) =
     Some (case n of Fin r \<Rightarrow> number_to_string B n | _ \<Rightarrow> ''null'')"
| "stringify B (JStr s) = Some (quote s)"
| "stringify B (JArr xs) =
     Some (''['' @ join_with '',''
        (map (\<lambda>x. case stringify B x of None \<Rightarrow> ''null'' | Some t \<Rightarrow> t) xs) @ '']'')"
| "stringify B (JObj kvs) =
     Some (''{'' @ join_with '',''
        (concat (map (\<lambda>kv. case stringify B (snd kv) of
                               None \<Rightarrow> []
                             | Some t \<Rightarrow> [quote (fst kv) @ '':'' @ t]) kvs)) @ ''}'')"

section \<open>The browser: storage, router, network\<close>

datatype body = NoBody | JsonBody val | FormBody "(string \<times> string) list"

record request =
  http_method :: string
  url :: string
  headers :: "(string \<times> string) list"
  payload :: body

record browser =
  storage :: "string \<rightharpoonup> string"
  nav :: "string list"
  sent :: "request list"

definition API_BASE :: string where
  "API_BASE = ''http://127.0.0.1:8000''"

definition missing :: "string option \<Rightarrow> bool" where
  \<comment> \<open>\<open>!x\<close> for what \<open>localStorage.getItem\<close> returns: \<open>null\<close> or a string\<close>
  "missing x = (case x of None \<Rightarrow> True | Some s \<Rightarrow> s = [])"

definition item_str :: "string option \<Rightarrow> string" where
  \<comment> \<open>a stored item inside a template literal\<close>
  "item_str x = (case x of None \<Rightarrow> ''null'' | Some s \<Rightarrow> s)"

definition navigate :: "string \<Rightarrow> browser \<Rightarrow> browser" where
  "navigate route b = b\<lparr>nav := nav b @ [route]\<rparr>"

definition issue :: "request \<Rightarrow> browser \<Rightarrow> browser" where
  "issue r b = b\<lparr>sent := sent b @ [r]\<rparr>"

definition setItem :: "string \<Rightarrow> string \<Rightarrow> browser \<Rightarrow> browser" where
  "setItem k v b = b\<lparr>storage := (storage b)(k \<mapsto> v)\<rparr>"

definition handleLogout :: "browser \<Rightarrow> browser" where
  \<comment> \<open>the same two lines on Dashboard, Monitor and DistributionDashboard\<close>
  "handleLogout b = navigate ''/login'' (b\<lparr>storage := Map.empty\<rparr>)"

definition err_status :: "exn \<Rightarrow> nat option" where
  \<comment> \<open>\<open>err.response?.status\<close>\<close>
  "err_status e = (case e of AxiosError (Some (st, d)) \<Rightarrow> Some st | _ \<Rightarrow> None)"

definition err_detail :: "exn \<Rightarrow> val" where
  \<comment> \<open>\<open>err.response?.data?.detail\<close>\<close>
  "err_detail e = (case e of AxiosError (Some (st, d)) \<Rightarrow> opt_get d ''detail'' | _ \<Rightarrow> JUndefined)"

section \<open>Login\<close>

record login =
  username :: string
  password :: string
  selectedMC :: string
  mcList :: val
  login_error :: val
  login_loading :: bool

definition handleLogin :: "browser \<times> login \<Rightarrow> browser \<times> login" where
  \<comment> \<open>up to \<open>await axios.post\<close>\<close>
  "handleLogin = (\<lambda>(b, s).
     (issue \<lparr>http_method = ''POST'', url = API_BASE @ ''/api/login'', headers = [],
             payload = FormBody [(''username'', username s), (''password'', password s),
                                 (''mc_code'', selectedMC s)]\<rparr> b,
      s\<lparr>login_error := JStr [], login_loading := True\<rparr>))"

definition login_catch :: "exn \<Rightarrow> browser \<times> login \<Rightarrow> browser \<times> login" where
  "login_catch e = (\<lambda>(b, s).
     (b, s\<lparr>login_error := or_else (err_detail e) (JStr ''Login failed. Try again.'')\<rparr>))"

definition login_store :: "builtins \<Rightarrow> string \<Rightarrow> val \<Rightarrow> browser \<Rightarrow> browser" where
  \<comment> \<open>the success branch: three \<open>setItem\<close> calls, then \<open>navigate\<close>\<close>
  "login_store B user data b =
     (let mc_code = get_prop data ''mc_code'';
          mc_name = get_prop data ''mc_name'';
          b1 = setItem ''mc_code'' (to_string B mc_code) b;
          b2 = setItem ''mc_name'' (to_string B mc_name) b1;
          b3 = setItem ''user''
                 (case stringify B (JObj [(''username'', JStr user), (''mc_code'', mc_code),
                                          (''mc_name'', mc_name)]) of
                    None \<Rightarrow> ''undefined'' | Some t \<Rightarrow> t) b2
      in navigate ''/dashboard'' b3)"

definition handleLogin_response ::
  "builtins \<Rightarrow> response \<Rightarrow> browser \<times> login \<Rightarrow> browser \<times> login" where
  \<comment> \<open>from the \<open>await\<close> to the end of \<open>finally\<close>\<close>
  "handleLogin_response B r = (\<lambda>(b, s).
     (let (b', s') =
        (case r of
           Rejected resp \<Rightarrow> login_catch (AxiosError resp) (b, s)
         | Resolved data \<Rightarrow>
             (case get data ''status'' of
                Inl e \<Rightarrow> login_catch e (b, s)
              | Inr st \<Rightarrow>
                  if st = JStr ''success'' then (login_store B (username s) data b, s)
                  else (b, s\<lparr>login_error := JStr ''Invalid credentials. Please check again.''\<rparr>)))
      in (b', s'\<lparr>login_loading := False\<rparr>)))"

definition login_init :: login where
  "login_init = \<lparr>username = [], password = [], selectedMC = [], mcList = JArr [],
                 login_error = JStr [], login_loading = False\<rparr>"

definition browser_init :: browser where
  "browser_init = \<lparr>storage = Map.empty, nav = [], sent = []\<rparr>"


section \<open>What the three screens share\<close>

text \<open>
  A screen's world: the browser, the component's state, and one entry per request it
  has issued, in issue order: the continuation still waiting for the response, or
  \<open>None\<close> once it has run. The entry of request \<open>i\<close> stands at index \<open>i\<close>.
\<close>

record ('s, 'q) world =
  wb :: browser
  ws :: 's
  inflight :: "'q option list"

definition issue_w :: "request \<Rightarrow> 'q \<Rightarrow> ('s, 'q) world \<Rightarrow> ('s, 'q) world" where
  "issue_w r q w = w\<lparr>wb := issue r (wb w), inflight := inflight w @ [Some q]\<rparr>"

definition mcCode :: "browser \<Rightarrow> string option" where
  "mcCode b = storage b ''mc_code''"

definition token :: "browser \<Rightarrow> string option" where
  "token b = storage b ''access_token''"

definition item_val :: "string option \<Rightarrow> val" where
  \<comment> \<open>a stored item as a value inside a request body\<close>
  "item_val x = (case x of None \<Rightarrow> JNull | Some s \<Rightarrow> JStr s)"

definition warning_sign :: string where
  \<comment> \<open>U+26A0 U+FE0F in UTF-8\<close>
  "warning_sign = [CHR 0xE2, CHR 0x9A, CHR 0xA0, CHR 0xEF, CHR 0xB8, CHR 0x8F]"

fun obj_set :: "(string \<times> val) list \<Rightarrow> string \<Rightarrow> val \<Rightarrow> (string \<times> val) list" where
  \<comment> \<open>\<open>{...o, [k]: v}\<close>: an existing key keeps its place (the keys are field names,
      never array indices, which JavaScript would order first)\<close>
  "obj_set [] k v = [(k, v)]"
| "obj_set ((k', v') # kvs) k v =
     (if k' = k then (k, v) # kvs else (k', v') # obj_set kvs k v)"

definition spread :: "(string \<times> val) list \<Rightarrow> (string \<times> val) list \<Rightarrow> (string \<times> val) list" where
  \<comment> \<open>\<open>{...a, ...b}\<close>\<close>
  "spread a b = foldl (\<lambda>obj kv. obj_set obj (fst kv) (snd kv)) a b"

definition parseFloat :: "builtins \<Rightarrow> val \<Rightarrow> jsnum" where
  \<comment> \<open>\<open>parseFloat(v)\<close> converts its argument to a string first\<close>
  "parseFloat B v = parseFloat_str B (to_string B v)"

definition to_number :: "builtins \<Rightarrow> val \<Rightarrow> jsnum" where
  "to_number B v =
     (case v of
        JUndefined \<Rightarrow> NaN
      | JNull \<Rightarrow> Fin 0
      | JBool b \<Rightarrow> Fin (if b then 1 else 0)
      | JNum n \<Rightarrow> n
      | _ \<Rightarrow> string_to_number B (to_string B v))"

definition gt_zero :: "builtins \<Rightarrow> val \<Rightarrow> bool" where
  \<comment> \<open>\<open>v > 0\<close>\<close>
  "gt_zero B v = (case to_number B v of Fin r \<Rightarrow> 0 < r | PosInf \<Rightarrow> True | _ \<Rightarrow> False)"

definition has_length :: "builtins \<Rightarrow> val \<Rightarrow> bool" where
  \<comment> \<open>\<open>v.length > 0\<close> on a value that is never \<open>null\<close> or \<open>undefined\<close>\<close>
  "has_length B v = gt_zero B (get_prop v ''length'')"

definition has_keys :: "val \<Rightarrow> bool" where
  \<comment> \<open>\<open>Object.keys(v).length > 0\<close>\<close>
  "has_keys v =
     (case v of JObj kvs \<Rightarrow> kvs \<noteq> [] | JArr xs \<Rightarrow> xs \<noteq> [] | JStr s \<Rightarrow> s \<noteq> [] | _ \<Rightarrow> False)"

section \<open>Monitor\<close>

record monitor =
  hubList :: val
  selectedHub :: string
  formData :: "(string \<times> val) list"
  result :: val
  trend :: val
  yearlyTrend :: val
  anomalies :: val
  records :: val
  loading :: bool
  error :: val
  activeView :: "string option"

datatype monitor_req =
  HubsReq | PredictReq | TrendReq string | YearlyReq string | AnomaliesReq | RecordsReq

type_synonym monitor_world = "(monitor, monitor_req) world"

definition monitor_init :: monitor where
  "monitor_init =
     \<lparr>hubList = JArr [], selectedHub = [],
      formData =
        [(''Temperature_Min'', JNum (Fin 35)), (''Temperature_Max'', JNum (Fin 40)),
         (''pH_Min'', JNum (Fin (11 / 2))), (''pH_Max'', JNum (Fin 6)),
         (''Conductivity_Min'', JNum (Fin 1500)), (''Conductivity_Max'', JNum (Fin 2000)),
         (''BOD_Min'', JNum (Fin 12)), (''BOD_Max'', JNum (Fin 15)),
         (''Faecal_Coliform_Min'', JNum (Fin 600)), (''Faecal_Coliform_Max'', JNum (Fin 1000)),
         (''Total_Coliform_Min'', JNum (Fin 600)), (''Total_Coliform_Max'', JNum (Fin 1000)),
         (''Nitrate_N_Min'', JNum (Fin 10)), (''Nitrate_N_Max'', JNum (Fin 15))],
      result = JNull, trend = JArr [], yearlyTrend = JObj [], anomalies = JArr [],
      records = JArr [], loading = False, error = JStr [], activeView = None\<rparr>"

definition get_plain :: "string \<Rightarrow> request" where
  \<comment> \<open>\<open>axios.get(url)\<close> on the default instance: no header of the page's own\<close>
  "get_plain u = \<lparr>http_method = ''GET'', url = u, headers = [], payload = NoBody\<rparr>"

definition monitor_mount :: "monitor_world \<Rightarrow> monitor_world" where
  \<comment> \<open>the hubs effect\<close>
  "monitor_mount w =
     (if missing (mcCode (wb w)) then w\<lparr>wb := navigate ''/login'' (wb w)\<rparr>
      else issue_w (get_plain (API_BASE @ ''/api/mc/'' @ item_str (mcCode (wb w)) @ ''/hubs''))
             HubsReq w)"

definition monitor_handleChange :: "string \<Rightarrow> string \<Rightarrow> monitor \<Rightarrow> monitor" where
  "monitor_handleChange name v s = s\<lparr>formData := obj_set (formData s) name (JStr v)\<rparr>"

definition monitor_payload :: "builtins \<Rightarrow> browser \<Rightarrow> monitor \<Rightarrow> val" where
  "monitor_payload B b s =
     JObj (spread [(''MC_Code'', item_val (mcCode b)), (''Hub_ID'', JStr (selectedHub s))]
             (spread []
               (map (\<lambda>kv. (fst kv, or_else (JNum (parseFloat B (snd kv))) (JNum (Fin 0))))
                  (formData s))))"

definition monitor_handlePredict :: "builtins \<Rightarrow> monitor_world \<Rightarrow> monitor_world" where
  "monitor_handlePredict B w =
     (let s = (ws w)\<lparr>error := JStr [], result := JNull, trend := JArr [],
                     yearlyTrend := JObj [], anomalies := JArr [], records := JArr [],
                     activeView := Some ''predict''\<rparr>
      in if selectedHub s = []
         then w\<lparr>ws := s\<lparr>error := JStr ''Please select a Hub before prediction.''\<rparr>\<rparr>
         else issue_w \<lparr>http_method = ''POST'', url = API_BASE @ ''/api/predict-quality'',
                       headers = [], payload = JsonBody (monitor_payload B (wb w) s)\<rparr>
                PredictReq (w\<lparr>ws := s\<lparr>loading := True\<rparr>\<rparr>))"

definition monitor_fetchTrend :: "monitor_world \<Rightarrow> monitor_world" where
  "monitor_fetchTrend w =
     (let s = (ws w)\<lparr>activeView := Some ''trend'', result := JNull, yearlyTrend := JObj [],
                     anomalies := JArr [], records := JArr [], error := JStr []\<rparr>
      in if selectedHub s = [] then w\<lparr>ws := s\<lparr>error := JStr ''Select a hub first.''\<rparr>\<rparr>
         else issue_w (get_plain (API_BASE @ ''/api/mc/'' @ item_str (mcCode (wb w))
                                 @ ''/trend?Hub_ID='' @ selectedHub s))
                (TrendReq (selectedHub s)) (w\<lparr>ws := s\<rparr>))"

definition monitor_fetchYearlyTrend :: "monitor_world \<Rightarrow> monitor_world" where
  "monitor_fetchYearlyTrend w =
     (let s = (ws w)\<lparr>activeView := Some ''yearly'', result := JNull, trend := JArr [],
                     anomalies := JArr [], records := JArr [], error := JStr []\<rparr>
      in if selectedHub s = [] then w\<lparr>ws := s\<lparr>error := JStr ''Select a hub first.''\<rparr>\<rparr>
         else issue_w (get_plain (API_BASE @ ''/api/mc/'' @ item_str (mcCode (wb w))
                                 @ ''/yearly-trend?Hub_ID='' @ selectedHub s))
                (YearlyReq (selectedHub s)) (w\<lparr>ws := s\<rparr>))"

definition monitor_fetchAnomalies :: "monitor_world \<Rightarrow> monitor_world" where
  "monitor_fetchAnomalies w =
     (let s = (ws w)\<lparr>activeView := Some ''anomalies'', result := JNull, trend := JArr [],
                     yearlyTrend := JObj [], records := JArr [], error := JStr []\<rparr>
      in if selectedHub s = [] then w\<lparr>ws := s\<lparr>error := JStr ''Select a hub first.''\<rparr>\<rparr>
         else issue_w (get_plain (API_BASE @ ''/api/mc/'' @ item_str (mcCode (wb w))
                                 @ ''/anomalies?Hub_ID='' @ selectedHub s))
                AnomaliesReq (w\<lparr>ws := s\<rparr>))"

definition monitor_fetchRecords :: "monitor_world \<Rightarrow> monitor_world" where
  "monitor_fetchRecords w =
     (let s = (ws w)\<lparr>activeView := Some ''records'', result := JNull, trend := JArr [],
                     yearlyTrend := JObj [], anomalies := JArr [], error := JStr []\<rparr>
      in if selectedHub s = [] then w\<lparr>ws := s\<lparr>error := JStr ''Select a hub first.''\<rparr>\<rparr>
         else issue_w (get_plain (API_BASE @ ''/api/mc/'' @ item_str (mcCode (wb w))
                                 @ ''/quality-records?Hub_ID='' @ selectedHub s))
                RecordsReq (w\<lparr>ws := s\<rparr>))"

text \<open>
  The part of each handler after its \<open>await\<close>. A \<open>TypeError\<close> raised while the body of
  \<open>try\<close> reads the response lands in the same \<open>catch\<close> as a rejected request.
\<close>

definition trend_records :: "string \<Rightarrow> string \<Rightarrow> val \<Rightarrow> exn + val" where
  \<comment> \<open>\<open>res.data[summary][hub]?.Records || []\<close>\<close>
  "trend_records summary hub data =
     (case get data summary of
        Inl e \<Rightarrow> Inl e
      | Inr ts \<Rightarrow>
          (case get ts hub of
             Inl e \<Rightarrow> Inl e
           | Inr h \<Rightarrow> Inr (or_else (opt_get h ''Records'') (JArr []))))"

definition yearly_summary :: "string \<Rightarrow> val \<Rightarrow> exn + val" where
  \<comment> \<open>\<open>res.data.Yearly_Trend_Summary[hub] || {}\<close>\<close>
  "yearly_summary hub data =
     (case get data ''Yearly_Trend_Summary'' of
        Inl e \<Rightarrow> Inl e
      | Inr ys \<Rightarrow>
          (case get ys hub of
             Inl e \<Rightarrow> Inl e
           | Inr y \<Rightarrow> Inr (or_else y (JObj []))))"

definition list_field :: "string \<Rightarrow> val \<Rightarrow> exn + val" where
  \<comment> \<open>\<open>res.data[field] || []\<close>\<close>
  "list_field field data =
     (case get data field of Inl e \<Rightarrow> Inl e | Inr v \<Rightarrow> Inr (or_else v (JArr [])))"

definition settle :: "response \<Rightarrow> (val \<Rightarrow> exn + val) \<Rightarrow> exn + val" where
  \<comment> \<open>the outcome of a \<open>try\<close> body that awaits the response and then reads it\<close>
  "settle r read = (case r of Rejected resp \<Rightarrow> Inl (AxiosError resp) | Resolved data \<Rightarrow> read data)"

fun monitor_response :: "monitor_req \<Rightarrow> response \<Rightarrow> monitor \<Rightarrow> monitor" where
  "monitor_response HubsReq r s =
     (case settle r (\<lambda>data. Inr (or_else (opt_get data ''Hubs'') (JArr []))) of
        Inr v \<Rightarrow> s\<lparr>hubList := v\<rparr>
      | Inl e \<Rightarrow> s\<lparr>error := JStr (warning_sign @ '' Failed to load hubs.'')\<rparr>)"
| "monitor_response PredictReq r s =
     (case settle r Inr of
        Inr v \<Rightarrow> s\<lparr>result := v\<rparr>
      | Inl e \<Rightarrow> s\<lparr>error := or_else (err_detail e)
                                 (JStr ''Prediction failed. Check backend logs.'')\<rparr>)
     \<lparr>loading := False\<rparr>"
| "monitor_response (TrendReq hub) r s =
     (case settle r (trend_records ''Trend_Summary'' hub) of
        Inr v \<Rightarrow> s\<lparr>trend := v\<rparr>
      | Inl e \<Rightarrow> s\<lparr>error := JStr ''Trend data unavailable.''\<rparr>)"
| "monitor_response (YearlyReq hub) r s =
     (case settle r (yearly_summary hub) of
        Inr v \<Rightarrow> s\<lparr>yearlyTrend := v\<rparr>
      | Inl e \<Rightarrow> s\<lparr>error := JStr ''Yearly trend unavailable.''\<rparr>)"
| "monitor_response AnomaliesReq r s =
     (case settle r (list_field ''Records'') of
        Inr v \<Rightarrow> s\<lparr>anomalies := v\<rparr>
      | Inl e \<Rightarrow> s\<lparr>error := JStr ''No anomalies found.''\<rparr>)"
| "monitor_response RecordsReq r s =
     (case settle r (list_field ''Records'') of
        Inr v \<Rightarrow> s\<lparr>records := v\<rparr>
      | Inl e \<Rightarrow> s\<lparr>error := JStr ''No records found.''\<rparr>)"

text \<open>
  The render: one conditional section per view, in the order of the JSX. Each is
  listed with the view it belongs to and the state cell it draws.
\<close>

definition monitor_sections :: "builtins \<Rightarrow> monitor \<Rightarrow> (string \<times> val) list" where
  "monitor_sections B s =
     (if activeView s = Some ''predict'' \<and> truthy (result s) then [(''predict'', result s)] else [])
   @ (if activeView s = Some ''trend'' \<and> has_length B (trend s) then [(''trend'', trend s)] else [])
   @ (if activeView s = Some ''yearly'' \<and> has_keys (yearlyTrend s)
        then [(''yearly'', yearlyTrend s)] else [])
   @ (if activeView s = Some ''anomalies'' \<and> has_length B (anomalies s)
        then [(''anomalies'', anomalies s)] else [])
   @ (if activeView s = Some ''records'' \<and> has_length B (records s)
        then [(''records'', records s)] else [])"


text \<open>The History table: \<open>records.slice(0, 10).map((r, i) => <tr>...)\<close>.\<close>

definition history_cells :: "val \<Rightarrow> val list" where
  "history_cells r =
     [get_prop r ''Created_At'', get_prop r ''Hub_ID'', get_prop r ''WQI'',
      get_prop r ''Category'', get_prop r ''Anomaly_Status'']"

definition history_row :: "val \<Rightarrow> exn + val list" where
  "history_row r = (if nullish r then Inl TypeError else Inr (history_cells r))"

fun rows :: "(val \<Rightarrow> exn + 'a) \<Rightarrow> val list \<Rightarrow> exn + 'a list" where
  "rows f [] = Inr []"
| "rows f (x # xs) =
     (case f x of
        Inl e \<Rightarrow> Inl e
      | Inr y \<Rightarrow> (case rows f xs of Inl e \<Rightarrow> Inl e | Inr ys \<Rightarrow> Inr (y # ys)))"

definition history_table :: "val \<Rightarrow> exn + val list list" where
  \<comment> \<open>only an array has both \<open>slice\<close> and \<open>map\<close>\<close>
  "history_table recs =
     (case recs of JArr xs \<Rightarrow> rows history_row (take 10 xs) | _ \<Rightarrow> Inl TypeError)"

definition monitor_history :: "builtins \<Rightarrow> monitor \<Rightarrow> (exn + val list list) option" where
  "monitor_history B s =
     (if activeView s = Some ''records'' \<and> has_length B (records s)
      then Some (history_table (records s)) else None)"

subsection \<open>Events\<close>

text \<open>
  What can happen to a mounted screen: the user picks a hub, edits a field, presses one
  of the view buttons (named by the view it selects) or Logout, or the response to
  request number \<open>i\<close> arrives. A response to a request that was never issued, or that
  has been answered already, is no event of the page and leaves the world as it is.
\<close>

datatype event =
    SelectHub string
  | Change string string
  | Click string
  | Logout
  | Response nat response

definition deliver ::
  "('q \<Rightarrow> response \<Rightarrow> ('s, 'q) world \<Rightarrow> ('s, 'q) world) \<Rightarrow> nat \<Rightarrow> response
     \<Rightarrow> ('s, 'q) world \<Rightarrow> ('s, 'q) world" where
  "deliver k i r w =
     (if i < length (inflight w)
      then (case inflight w ! i of
              None \<Rightarrow> w
            | Some q \<Rightarrow> k q r (w\<lparr>inflight := (inflight w)[i := None]\<rparr>))
      else w)"

fun selected :: "string list \<Rightarrow> string option \<Rightarrow> event list \<Rightarrow> string option" where
  \<comment> \<open>the view most recently selected by a trace, among a screen's views\<close>
  "selected views cur [] = cur"
| "selected views cur (Click v # es) = selected views (if v \<in> set views then Some v else cur) es"
| "selected views cur (e # es) = selected views cur es"

definition monitor_views :: "string list" where
  "monitor_views = [''predict'', ''trend'', ''yearly'', ''anomalies'', ''records'']"

fun monitor_step :: "builtins \<Rightarrow> event \<Rightarrow> monitor_world \<Rightarrow> monitor_world" where
  "monitor_step B (SelectHub h) w = w\<lparr>ws := (ws w)\<lparr>selectedHub := h\<rparr>\<rparr>"
| "monitor_step B (Change name v) w = w\<lparr>ws := monitor_handleChange name v (ws w)\<rparr>"
| "monitor_step B (Click v) w =
     (if v = ''predict'' then monitor_handlePredict B w
      else if v = ''trend'' then monitor_fetchTrend w
      else if v = ''yearly'' then monitor_fetchYearlyTrend w
      else if v = ''anomalies'' then monitor_fetchAnomalies w
      else if v = ''records'' then monitor_fetchRecords w
      else w)"
| "monitor_step B Logout w = w\<lparr>wb := handleLogout (wb w)\<rparr>"
| "monitor_step B (Response i r) w =
     deliver (\<lambda>q r w. w\<lparr>ws := monitor_response q r (ws w)\<rparr>) i r w"

definition monitor_run :: "builtins \<Rightarrow> event list \<Rightarrow> monitor_world \<Rightarrow> monitor_world" where
  "monitor_run B evs w = foldl (\<lambda>w e. monitor_step B e w) w evs"

definition monitor_start :: "browser \<Rightarrow> monitor_world" where
  \<comment> \<open>the screen right after its first render and its effect\<close>
  "monitor_start b = monitor_mount \<lparr>wb = b, ws = monitor_init, inflight = []\<rparr>"

section \<open>DistributionDashboard\<close>

record distribution =
  hubList_d :: val
  selectedHub_d :: string
  formData_d :: "(string \<times> val) list"
  result_d :: val
  trend_d :: val
  yearlyTrend_d :: val
  critical :: val
  records_d :: val
  error_d :: val
  loading_d :: bool
  activeView_d :: "string option"

datatype distribution_req =
    HubsReq_d | PredictReq_d | TrendReq_d string | YearlyReq_d string | CriticalReq
  | RecordsReq_d

type_synonym distribution_world = "(distribution, distribution_req) world"

definition distribution_init :: distribution where
  "distribution_init =
     \<lparr>hubList_d = JArr [], selectedHub_d = [],
      formData_d =
        [(''Total_Demand_MLD'', JNum (Fin 150)), (''Current_Supply_MLD'', JNum (Fin 120)),
         (''Population'', JNum (Fin 800000))],
      result_d = JNull, trend_d = JArr [], yearlyTrend_d = JObj [], critical = JArr [],
      records_d = JArr [], error_d = JStr [], loading_d = False, activeView_d = None\<rparr>"

definition bearer :: "string option \<Rightarrow> string" where
  \<comment> \<open>the template literal \<open>Bearer ${token}\<close>\<close>
  "bearer t = ''Bearer '' @ item_str t"

definition axiosAuth_d :: "browser \<Rightarrow> string \<Rightarrow> string \<Rightarrow> body \<Rightarrow> request" where
  \<comment> \<open>the instance this screen creates on every render, from the token read on that
      render\<close>
  "axiosAuth_d b m path bd =
     \<lparr>http_method = m, url = API_BASE @ path,
      headers = [(''Authorization'', bearer (token b))], payload = bd\<rparr>"

definition distribution_mount :: "distribution_world \<Rightarrow> distribution_world" where
  \<comment> \<open>the component's two effects in source order, then the effect of the wrapper
      \<open>ProtectedDistributionDashboard\<close> (React runs a child's effects first)\<close>
  "distribution_mount w =
     (let w1 = (if missing (token (wb w)) \<or> missing (mcCode (wb w))
                then w\<lparr>wb := navigate ''/login'' (wb w)\<rparr> else w);
          w2 = (if missing (mcCode (wb w1)) then w1\<lparr>wb := navigate ''/login'' (wb w1)\<rparr>
                else issue_w (axiosAuth_d (wb w1) ''GET''
                               (''/api/mc/'' @ item_str (mcCode (wb w1)) @ ''/hubs'') NoBody)
                       HubsReq_d w1)
      in if missing (token (wb w2)) then w2\<lparr>wb := navigate ''/login'' (wb w2)\<rparr> else w2)"

definition distribution_handleChange ::
  "builtins \<Rightarrow> string \<Rightarrow> string \<Rightarrow> distribution \<Rightarrow> distribution" where
  "distribution_handleChange B name v s =
     s\<lparr>formData_d :=
         obj_set (formData_d s) name (or_else (JNum (parseFloat B (JStr v))) (JNum (Fin 0)))\<rparr>"

definition distribution_payload :: "browser \<Rightarrow> distribution \<Rightarrow> val" where
  "distribution_payload b s =
     JObj (spread [(''MC_Code'', item_val (mcCode b)), (''Hub_ID'', JStr (selectedHub_d s))]
             (formData_d s))"

definition distribution_handlePredict :: "distribution_world \<Rightarrow> distribution_world" where
  "distribution_handlePredict w =
     (let s = (ws w)\<lparr>error_d := JStr [], result_d := JNull, trend_d := JArr [],
                     yearlyTrend_d := JObj [], critical := JArr [], records_d := JArr [],
                     activeView_d := Some ''predict''\<rparr>
      in if selectedHub_d s = []
         then w\<lparr>ws := s\<lparr>error_d := JStr ''Please select a Hub before prediction.''\<rparr>\<rparr>
         else issue_w (axiosAuth_d (wb w) ''POST'' ''/api/predict-distribution''
                         (JsonBody (distribution_payload (wb w) s)))
                PredictReq_d (w\<lparr>ws := s\<lparr>loading_d := True\<rparr>\<rparr>))"

definition distribution_fetchTrend :: "distribution_world \<Rightarrow> distribution_world" where
  "distribution_fetchTrend w =
     (let s = (ws w)\<lparr>activeView_d := Some ''trend'', result_d := JNull,
                     yearlyTrend_d := JObj [], critical := JArr [], records_d := JArr [],
                     error_d := JStr []\<rparr>
      in if selectedHub_d s = [] then w\<lparr>ws := s\<lparr>error_d := JStr ''Select a hub first.''\<rparr>\<rparr>
         else issue_w (axiosAuth_d (wb w) ''GET''
                         (''/api/mc/'' @ item_str (mcCode (wb w)) @ ''/distribution-trend?hub_id=''
                            @ selectedHub_d s) NoBody)
                (TrendReq_d (selectedHub_d s)) (w\<lparr>ws := s\<rparr>))"

definition distribution_fetchYearlyTrend :: "distribution_world \<Rightarrow> distribution_world" where
  "distribution_fetchYearlyTrend w =
     (let s = (ws w)\<lparr>activeView_d := Some ''yearly'', result_d := JNull, trend_d := JArr [],
                     critical := JArr [], records_d := JArr [], error_d := JStr []\<rparr>
      in if selectedHub_d s = [] then w\<lparr>ws := s\<lparr>error_d := JStr ''Select a hub first.''\<rparr>\<rparr>
         else issue_w (axiosAuth_d (wb w) ''GET''
                         (''/api/mc/'' @ item_str (mcCode (wb w))
                            @ ''/yearly-distribution-trend?hub_id='' @ selectedHub_d s) NoBody)
                (YearlyReq_d (selectedHub_d s)) (w\<lparr>ws := s\<rparr>))"

definition distribution_fetchCritical :: "distribution_world \<Rightarrow> distribution_world" where
  \<comment> \<open>no hub is needed for this one\<close>
  "distribution_fetchCritical w =
     (let s = (ws w)\<lparr>activeView_d := Some ''critical'', result_d := JNull, trend_d := JArr [],
                     yearlyTrend_d := JObj [], records_d := JArr [], error_d := JStr []\<rparr>
      in issue_w (axiosAuth_d (wb w) ''GET''
                    (''/api/mc/'' @ item_str (mcCode (wb w)) @ ''/critical-summary'') NoBody)
           CriticalReq (w\<lparr>ws := s\<rparr>))"

definition distribution_fetchRecords :: "distribution_world \<Rightarrow> distribution_world" where
  \<comment> \<open>reads the token again and uses the default axios instance with its own header\<close>
  "distribution_fetchRecords w =
     (let s = (ws w)\<lparr>activeView_d := Some ''records'', result_d := JNull, trend_d := JArr [],
                     yearlyTrend_d := JObj [], critical := JArr [], error_d := JStr []\<rparr>
      in if missing (token (wb w)) then w\<lparr>wb := navigate ''/login'' (wb w), ws := s\<rparr>
         else issue_w \<lparr>http_method = ''GET'',
                       url = API_BASE @ ''/api/mc/'' @ item_str (mcCode (wb w))
                               @ ''/distribution-latest'',
                       headers = [(''Authorization'', bearer (token (wb w)))],
                       payload = NoBody\<rparr>
                RecordsReq_d (w\<lparr>ws := s\<rparr>))"

definition yearly_records :: "string \<Rightarrow> val \<Rightarrow> exn + val" where
  \<comment> \<open>\<open>res.data.Yearly_Distribution_Trend[hub]?.Records_Per_Year || {}\<close>\<close>
  "yearly_records hub data =
     (case get data ''Yearly_Distribution_Trend'' of
        Inl e \<Rightarrow> Inl e
      | Inr ys \<Rightarrow>
          (case get ys hub of
             Inl e \<Rightarrow> Inl e
           | Inr y \<Rightarrow> Inr (or_else (opt_get y ''Records_Per_Year'') (JObj []))))"

fun distribution_response :: "distribution_req \<Rightarrow> response \<Rightarrow> distribution \<Rightarrow> distribution" where
  "distribution_response HubsReq_d r s =
     (case settle r (\<lambda>data. Inr (or_else (opt_get data ''Hubs'') (JArr []))) of
        Inr v \<Rightarrow> s\<lparr>hubList_d := v\<rparr>
      | Inl e \<Rightarrow> s\<lparr>error_d := JStr (warning_sign @ '' Failed to load hubs.'')\<rparr>)"
| "distribution_response PredictReq_d r s =
     (case settle r Inr of
        Inr v \<Rightarrow> s\<lparr>result_d := v\<rparr>
      | Inl e \<Rightarrow> s\<lparr>error_d := or_else (err_detail e) (JStr ''Prediction failed.'')\<rparr>)
     \<lparr>loading_d := False\<rparr>"
| "distribution_response (TrendReq_d hub) r s =
     (case settle r (trend_records ''Trend_Summary'' hub) of
        Inr v \<Rightarrow> s\<lparr>trend_d := v\<rparr>
      | Inl e \<Rightarrow> s\<lparr>error_d := JStr ''Trend data unavailable.''\<rparr>)"
| "distribution_response (YearlyReq_d hub) r s =
     (case settle r (yearly_records hub) of
        Inr v \<Rightarrow> s\<lparr>yearlyTrend_d := v\<rparr>
      | Inl e \<Rightarrow> s\<lparr>error_d := JStr ''Yearly trend unavailable.''\<rparr>)"
| "distribution_response CriticalReq r s =
     (case settle r (list_field ''Records'') of
        Inr v \<Rightarrow> s\<lparr>critical := v\<rparr>
      | Inl e \<Rightarrow> s\<lparr>error_d := JStr ''No critical events found.''\<rparr>)"
| "distribution_response RecordsReq_d r s =
     (case settle r (list_field ''Latest_Records'') of
        Inr v \<Rightarrow> s\<lparr>records_d := v\<rparr>
      | Inl e \<Rightarrow> s\<lparr>error_d := JStr ''No recent data available.''\<rparr>)"

definition distribution_sections :: "builtins \<Rightarrow> distribution \<Rightarrow> (string \<times> val) list" where
  "distribution_sections B s =
     (if activeView_d s = Some ''predict'' \<and> truthy (result_d s)
        then [(''predict'', result_d s)] else [])
   @ (if activeView_d s = Some ''trend'' \<and> has_length B (trend_d s)
        then [(''trend'', trend_d s)] else [])
   @ (if activeView_d s = Some ''yearly'' \<and> has_keys (yearlyTrend_d s)
        then [(''yearly'', yearlyTrend_d s)] else [])
   @ (if activeView_d s = Some ''critical'' \<and> has_length B (critical s)
        then [(''critical'', critical s)] else [])
   @ (if activeView_d s = Some ''records'' \<and> has_length B (records_d s)
        then [(''records'', records_d s)] else [])"

definition distribution_views :: "string list" where
  "distribution_views = [''predict'', ''trend'', ''yearly'', ''critical'', ''records'']"

fun distribution_step :: "builtins \<Rightarrow> event \<Rightarrow> distribution_world \<Rightarrow> distribution_world" where
  "distribution_step B (SelectHub h) w = w\<lparr>ws := (ws w)\<lparr>selectedHub_d := h\<rparr>\<rparr>"
| "distribution_step B (Change name v) w = w\<lparr>ws := distribution_handleChange B name v (ws w)\<rparr>"
| "distribution_step B (Click v) w =
     (if v = ''predict'' then distribution_handlePredict w
      else if v = ''trend'' then distribution_fetchTrend w
      else if v = ''yearly'' then distribution_fetchYearlyTrend w
      else if v = ''critical'' then distribution_fetchCritical w
      else if v = ''records'' then distribution_fetchRecords w
      else w)"
| "distribution_step B Logout w = w\<lparr>wb := handleLogout (wb w)\<rparr>"
| "distribution_step B (Response i r) w =
     deliver (\<lambda>q r w. w\<lparr>ws := distribution_response q r (ws w)\<rparr>) i r w"

definition distribution_run ::
  "builtins \<Rightarrow> event list \<Rightarrow> distribution_world \<Rightarrow> distribution_world" where
  "distribution_run B evs w = foldl (\<lambda>w e. distribution_step B e w) w evs"

definition distribution_start :: "browser \<Rightarrow> distribution_world" where
  "distribution_start b = distribution_mount \<lparr>wb = b, ws = distribution_init, inflight = []\<rparr>"


section \<open>Dashboard\<close>

text \<open>
  The Dashboard that reads the token (the variant with \<open>axiosAuth\<close> and the 401 branch;
  the repository also holds an earlier copy of the page that checks the municipality
  code only and uses the default axios instance). \<open>fetchTrend\<close> is called by the two
  buttons of a hub card with that hub and the literal \<open>"quality"\<close> or
  \<open>"distribution"\<close>.
\<close>

record dashboard =
  hubs :: val
  error_h :: val
  loading_h :: bool
  trendType :: val
  trendData :: val
  selectedHub_h :: val
  loadingTrend :: bool

datatype dashboard_req = FetchHubs | FetchTrend

type_synonym dashboard_world = "(dashboard, dashboard_req) world"

definition dashboard_init :: dashboard where
  "dashboard_init =
     \<lparr>hubs = JArr [], error_h = JStr [], loading_h = True, trendType = JNull,
      trendData = JNull, selectedHub_h = JNull, loadingTrend = False\<rparr>"

definition axiosAuth_h :: "browser \<Rightarrow> string \<Rightarrow> request" where
  \<comment> \<open>\<open>Authorization: token ? `Bearer ${token}` : ""\<close>\<close>
  "axiosAuth_h b path =
     \<lparr>http_method = ''GET'', url = API_BASE @ path,
      headers = [(''Authorization'', if missing (token b) then [] else bearer (token b))],
      payload = NoBody\<rparr>"

definition dashboard_mount :: "dashboard_world \<Rightarrow> dashboard_world" where
  "dashboard_mount w =
     (if missing (token (wb w)) \<or> missing (mcCode (wb w))
      then w\<lparr>wb := navigate ''/login'' (wb w)\<rparr>
      else issue_w (axiosAuth_h (wb w) (''/api/mc/'' @ item_str (mcCode (wb w)) @ ''/hubs''))
             FetchHubs w)"

definition trend_catch :: "exn \<Rightarrow> dashboard_world \<Rightarrow> dashboard_world" where
  \<comment> \<open>\<open>catch\<close> and \<open>finally\<close> of \<open>fetchTrend\<close>\<close>
  "trend_catch e w =
     (let w1 = (if err_status e = Some 401 then w\<lparr>wb := handleLogout (wb w)\<rparr> else w)
      in w1\<lparr>ws := (ws w1)\<lparr>error_h := JStr ''Failed to fetch trend data.'',
                            loadingTrend := False\<rparr>\<rparr>)"

definition trend_endpoint :: "builtins \<Rightarrow> browser \<Rightarrow> val \<Rightarrow> string \<Rightarrow> exn + string" where
  "trend_endpoint B b hub type =
     (if type = ''quality''
      then (case get hub ''Hub_ID'' of
              Inl e \<Rightarrow> Inl e
            | Inr hid \<Rightarrow>
                Inr (''/api/mc/'' @ item_str (mcCode b) @ ''/trend?Hub_ID='' @ to_string B hid))
      else Inr (''/api/mc/'' @ item_str (mcCode b) @ ''/distribution-trend''))"

definition dashboard_fetchTrend ::
  "builtins \<Rightarrow> val \<Rightarrow> string \<Rightarrow> dashboard_world \<Rightarrow> dashboard_world" where
  "dashboard_fetchTrend B hub type w =
     (if missing (token (wb w)) then w\<lparr>wb := navigate ''/login'' (wb w)\<rparr>
      else
        (let s = (ws w)\<lparr>trendData := JNull, trendType := JStr type, selectedHub_h := hub,
                        loadingTrend := True\<rparr>
         in case trend_endpoint B (wb w) hub type of
              Inl e \<Rightarrow> trend_catch e (w\<lparr>ws := s\<rparr>)
            | Inr endpoint \<Rightarrow> issue_w (axiosAuth_h (wb w) endpoint) FetchTrend (w\<lparr>ws := s\<rparr>)))"

fun dashboard_response :: "dashboard_req \<Rightarrow> response \<Rightarrow> dashboard_world \<Rightarrow> dashboard_world" where
  "dashboard_response FetchHubs r w =
     (let w1 =
        (case settle r (\<lambda>data. Inr (or_else (opt_get data ''Hubs'') (JArr []))) of
           Inr v \<Rightarrow> w\<lparr>ws := (ws w)\<lparr>hubs := v\<rparr>\<rparr>
         | Inl e \<Rightarrow>
             if err_status e = Some 401 then w\<lparr>wb := handleLogout (wb w)\<rparr>
             else w\<lparr>ws := (ws w)\<lparr>error_h := JStr (warning_sign @ '' Failed to load hubs.'')\<rparr>\<rparr>)
      in w1\<lparr>ws := (ws w1)\<lparr>loading_h := False\<rparr>\<rparr>)"
| "dashboard_response FetchTrend r w =
     (case settle r (\<lambda>data. case get data ''Trend_Summary'' of
                               Inl e \<Rightarrow> Inl e
                             | Inr ts \<Rightarrow> Inr (or_else ts (JObj []))) of
        Inr v \<Rightarrow> w\<lparr>ws := (ws w)\<lparr>trendData := v, loadingTrend := False\<rparr>\<rparr>
      | Inl e \<Rightarrow> trend_catch e w)"

definition dashboard_start :: "browser \<Rightarrow> dashboard_world" where
  "dashboard_start b = dashboard_mount \<lparr>wb = b, ws = dashboard_init, inflight = []\<rparr>"

section \<open>Views and the state cells they draw\<close>

text \<open>
  Each view of a screen draws one state cell (the render above pairs them), and each
  handler resets the cells of the other views to the value \<open>useState\<close> gave them. A
  view holds data when its cell differs from that value.
\<close>

definition cleared :: "string \<Rightarrow> val" where
  "cleared k = (if k = ''predict'' then JNull else if k = ''yearly'' then JObj [] else JArr [])"

definition monitor_slot :: "string \<Rightarrow> monitor \<Rightarrow> val" where
  "monitor_slot k s =
     (if k = ''predict'' then result s
      else if k = ''trend'' then trend s
      else if k = ''yearly'' then yearlyTrend s
      else if k = ''anomalies'' then anomalies s
      else if k = ''records'' then records s
      else JUndefined)"

definition monitor_holding :: "monitor \<Rightarrow> string list" where
  "monitor_holding s = filter (\<lambda>k. monitor_slot k s \<noteq> cleared k) monitor_views"

definition distribution_slot :: "string \<Rightarrow> distribution \<Rightarrow> val" where
  "distribution_slot k s =
     (if k = ''predict'' then result_d s
      else if k = ''trend'' then trend_d s
      else if k = ''yearly'' then yearlyTrend_d s
      else if k = ''critical'' then critical s
      else if k = ''records'' then records_d s
      else JUndefined)"

definition distribution_holding :: "distribution \<Rightarrow> string list" where
  "distribution_holding s = filter (\<lambda>k. distribution_slot k s \<noteq> cleared k) distribution_views"

text \<open>The view whose cell a request's continuation writes; the hubs request writes none.\<close>

fun monitor_req_view :: "monitor_req \<Rightarrow> string option" where
  "monitor_req_view HubsReq = None"
| "monitor_req_view PredictReq = Some ''predict''"
| "monitor_req_view (TrendReq h) = Some ''trend''"
| "monitor_req_view (YearlyReq h) = Some ''yearly''"
| "monitor_req_view AnomaliesReq = Some ''anomalies''"
| "monitor_req_view RecordsReq = Some ''records''"

fun distribution_req_view :: "distribution_req \<Rightarrow> string option" where
  "distribution_req_view HubsReq_d = None"
| "distribution_req_view PredictReq_d = Some ''predict''"
| "distribution_req_view (TrendReq_d h) = Some ''trend''"
| "distribution_req_view (YearlyReq_d h) = Some ''yearly''"
| "distribution_req_view CriticalReq = Some ''critical''"
| "distribution_req_view RecordsReq_d = Some ''records''"

fun numeric :: "val \<Rightarrow> bool" where
  \<comment> \<open>\<open>typeof v === "number"\<close> and not \<open>NaN\<close>\<close>
  "numeric (JNum n) = (n \<noteq> NaN)"
| "numeric v = False"

definition numeric_fields :: "(string \<times> val) list \<Rightarrow> bool" where
  "numeric_fields kvs = (distinct (map fst kvs) \<and> list_all (\<lambda>kv. numeric (snd kv)) kvs)"

section \<open>Sample data\<close>

text \<open>
  A concrete instance of the language's functions, for running the pages on examples.
  It agrees with JavaScript on the strings and numbers the examples use: unsigned
  decimal integers and the empty string.
\<close>

fun show_nat :: "nat \<Rightarrow> string" where
  "show_nat n =
     (if n < 10 then [char_of (48 + n)] else show_nat (n div 10) @ [char_of (48 + n mod 10)])"

definition sample_parseFloat :: "string \<Rightarrow> jsnum" where
  "sample_parseFloat s =
     (if s = [] then NaN
      else case digits_value 0 s of None \<Rightarrow> NaN | Some n \<Rightarrow> Fin (of_nat n))"

definition sample_Number :: "string \<Rightarrow> jsnum" where
  "sample_Number s = (case digits_value 0 s of None \<Rightarrow> NaN | Some n \<Rightarrow> Fin (of_nat n))"

definition sample_print :: "jsnum \<Rightarrow> string" where
  "sample_print n =
     (case n of
        NaN \<Rightarrow> ''NaN''
      | PosInf \<Rightarrow> ''Infinity''
      | NegInf \<Rightarrow> ''-Infinity''
      | Fin r \<Rightarrow> if 0 \<le> r \<and> of_int \<lfloor>r\<rfloor> = r then show_nat (nat \<lfloor>r\<rfloor>) else ''?'')"

definition sample_builtins :: builtins where
  "sample_builtins =
     \<lparr>parseFloat_str = sample_parseFloat, number_to_string = sample_print,
      string_to_number = sample_Number\<rparr>"

definition session_of :: "(string \<times> string) list \<Rightarrow> browser" where
  \<comment> \<open>a freshly loaded page over the given storage\<close>
  "session_of items = \<lparr>storage = map_of items, nav = [], sent = []\<rparr>"

definition sample_record :: "nat \<Rightarrow> val" where
  "sample_record i = JObj [(''WQI'', JNum (Fin (of_nat i)))]"

text \<open>
  Response bodies in the shape the handlers read, and two sessions: one with the items
  a login leaves in the storage (no token), one with a token as well.
\<close>

definition sample_trend_body :: val where
  "sample_trend_body =
     JObj [(''Trend_Summary'', JObj [(''H1'', JObj [(''Records'', JArr [sample_record 1])])])]"

definition sample_list_body :: val where
  "sample_list_body = JObj [(''Records'', JArr [sample_record 2])]"

definition session_code_only :: browser where
  "session_code_only = session_of [(''mc_code'', ''MC01''), (''mc_name'', ''Test City'')]"

definition session_with_token :: browser where
  "session_with_token =
     session_of [(''access_token'', ''abc''), (''mc_code'', ''MC01''), (''mc_name'', ''Test City'')]"

text \<open>
  The login scenario of the specification: the credentials typed into the form, the
  backend's success answer, and the browser after that login has run from an empty
  storage; and a 401 answer.
\<close>

definition sample_credentials :: login where
  "sample_credentials = login_init\<lparr>username := ''u1'', password := ''p1'', selectedMC := ''MC01''\<rparr>"

definition sample_success :: response where
  "sample_success =
     Resolved (JObj [(''status'', JStr ''success''), (''token'', JStr ''abc''),
                     (''mc_code'', JStr ''MC01''), (''mc_name'', JStr ''Test City'')])"

definition sample_401 :: response where
  "sample_401 = Rejected (Some (401, JObj [(''detail'', JStr ''Invalid or expired token'')]))"

definition logged_in :: "builtins \<Rightarrow> browser" where
  "logged_in B =
     fst (handleLogin_response B sample_success (handleLogin (browser_init, sample_credentials)))"

section \<open>Properties\<close>

subsection \<open>Auxiliary facts about objects and form data\<close>

lemma map_of_obj_set: "map_of (obj_set kvs k v) k' = (if k' = k then Some v else map_of kvs k')"
  by (induction kvs) auto

lemma keys_obj_set:
  "map fst (obj_set kvs k v) = (if k \<in> set (map fst kvs) then map fst kvs else map fst kvs @ [k])"
  by (induction kvs k v rule: obj_set.induct) simp_all

lemma distinct_obj_set: "distinct (map fst kvs) \<Longrightarrow> distinct (map fst (obj_set kvs k v))"
  by (simp add: keys_obj_set)

lemma map_of_spread:
  "map_of (spread a b) k = (case map_of (rev b) k of None \<Rightarrow> map_of a k | Some v \<Rightarrow> Some v)"
  unfolding spread_def
proof (induction b arbitrary: a)
  case Nil
  then show ?case by simp
next
  case (Cons x b)
  show ?case
    by (simp add: Cons.IH map_of_obj_set map_add_def split: option.splits)
qed

lemma map_of_rev_distinct: "distinct (map fst b) \<Longrightarrow> map_of (rev b) = map_of b"
  using map_of_inject_set[of "rev b" b] by (simp add: rev_map[symmetric])

lemma get_prop_spread:
  "distinct (map fst b) \<Longrightarrow> map_of b k = Some x \<Longrightarrow> get_prop (JObj (spread a b)) k = x"
  by (simp add: map_of_spread map_of_rev_distinct)

lemma map_of_coerce:
  "map_of (map (\<lambda>kv. (fst kv, f (snd kv))) xs) k = map_option f (map_of xs k)"
  by (induction xs) auto

lemma spread_nil_distinct: "distinct (map fst (spread [] b))"
  unfolding spread_def
proof -
  have "\<And>a. distinct (map fst a) \<Longrightarrow> distinct (map fst (foldl (\<lambda>obj kv. obj_set obj (fst kv) (snd kv)) a b))"
    by (induction b) (auto simp: distinct_obj_set)
  then show "distinct (map fst (foldl (\<lambda>obj kv. obj_set obj (fst kv) (snd kv)) [] b))" by simp
qed

lemma monitor_part:
  assumes "distinct (map fst (formData s))" and "map_of (formData s) k = Some x"
  shows "get_prop (monitor_payload B b s) k = JNum (if parseFloat B x = NaN then Fin 0 else parseFloat B x)"
proof -
  let ?c = "\<lambda>kv. (fst kv, or_else (JNum (parseFloat B (snd kv))) (JNum (Fin 0)))"
  have d: "distinct (map fst (map ?c (formData s)))" using assms(1) by (simp add: comp_def)
  have "map_of (spread [] (map ?c (formData s))) k = map_of (map ?c (formData s)) k"
    using d by (simp add: map_of_spread map_of_rev_distinct split: option.splits)
  also have "\<dots> = Some (or_else (JNum (parseFloat B x)) (JNum (Fin 0)))"
    using assms(2)
    by (simp add: map_of_coerce[where f = "\<lambda>v. or_else (JNum (parseFloat B v)) (JNum (Fin 0))"])
  finally have "get_prop (JObj (spread [(''MC_Code'', item_val (mcCode b)), (''Hub_ID'', JStr (selectedHub s))] (spread [] (map ?c (formData s))))) k
     = or_else (JNum (parseFloat B x)) (JNum (Fin 0))"
    by (intro get_prop_spread spread_nil_distinct)
  then show ?thesis by (simp add: monitor_payload_def or_else_def)
qed

lemma numeric_or_else: "numeric (or_else (JNum n) (JNum (Fin 0)))"
  by (simp add: or_else_def)

lemma list_all_obj_set: "list_all P kvs \<Longrightarrow> P (k, v) \<Longrightarrow> list_all P (obj_set kvs k v)"
  by (induction kvs) auto

lemma formData_d_step:
  "formData_d (ws (distribution_step B e w)) =
     (case e of Change name v \<Rightarrow> formData_d (distribution_handleChange B name v (ws w))
              | _ \<Rightarrow> formData_d (ws w))"
proof (cases e)
  case (Response i r)
  have "\<And>q s. formData_d (distribution_response q r s) = formData_d s"
    subgoal for q s by (cases q) (simp_all split: sum.splits)
    done
  then show ?thesis using Response by (simp add: deliver_def split: option.splits)
next
  case (Click v)
  then show ?thesis
    by (simp add: distribution_handlePredict_def distribution_fetchTrend_def
        distribution_fetchYearlyTrend_def distribution_fetchCritical_def
        distribution_fetchRecords_def Let_def issue_w_def)
qed simp_all

lemma numeric_fields_step:
  "numeric_fields (formData_d (ws w)) \<Longrightarrow> numeric_fields (formData_d (ws (distribution_step B e w)))"
  by (simp add: formData_d_step distribution_handleChange_def numeric_fields_def
        distinct_obj_set list_all_obj_set numeric_or_else split: event.splits)

lemma numeric_fields_run:
  "numeric_fields (formData_d (ws w)) \<Longrightarrow> numeric_fields (formData_d (ws (distribution_run B evs w)))"
  unfolding distribution_run_def
  by (induction evs arbitrary: w) (simp_all add: numeric_fields_step)

lemma numeric_fields_start: "numeric_fields (formData_d (ws (distribution_start b)))"
  by (simp add: distribution_start_def distribution_mount_def Let_def issue_w_def
      distribution_init_def numeric_fields_def)

lemma dd_part:
  assumes "w = distribution_run B evs (distribution_start b0)"
    and "map_of (formData_d (ws w)) k = Some x"
  shows "numeric x \<and> get_prop (distribution_payload (wb w) (ws w)) k = x"
proof -
  have nf: "numeric_fields (formData_d (ws w))"
    using assms(1) by (simp add: numeric_fields_run numeric_fields_start)
  have "(k, x) \<in> set (formData_d (ws w))" using assms(2) by (rule map_of_SomeD)
  then have "numeric x" using nf by (auto simp: numeric_fields_def list_all_iff)
  moreover have "get_prop (distribution_payload (wb w) (ws w)) k = x"
    unfolding distribution_payload_def
    using nf assms(2) by (intro get_prop_spread) (simp_all add: numeric_fields_def)
  ultimately show ?thesis by simp
qed

lemma dd_change:
  "map_of (formData_d (distribution_handleChange B name v s)) name
     = Some (JNum (if parseFloat B (JStr v) = NaN then Fin 0 else parseFloat B (JStr v)))"
  by (simp add: distribution_handleChange_def map_of_obj_set or_else_def)

lemma formData_step:
  "formData (ws (monitor_step B e w)) =
     (case e of Change name v \<Rightarrow> obj_set (formData (ws w)) name (JStr v)
              | _ \<Rightarrow> formData (ws w))"
proof (cases e)
  case (Response i r)
  have "\<And>q s. formData (monitor_response q r s) = formData s"
    subgoal for q s by (cases q) (simp_all split: sum.splits)
    done
  then show ?thesis using Response by (simp add: deliver_def split: option.splits)
next
  case (Click v)
  then show ?thesis
    by (simp add: monitor_handlePredict_def monitor_fetchTrend_def
        monitor_fetchYearlyTrend_def monitor_fetchAnomalies_def
        monitor_fetchRecords_def Let_def issue_w_def)
qed (simp_all add: monitor_handleChange_def)

lemma distinct_formData_run:
  "distinct (map fst (formData (ws w))) \<Longrightarrow> distinct (map fst (formData (ws (monitor_run B evs w))))"
  unfolding monitor_run_def
  by (induction evs arbitrary: w) (simp_all add: formData_step distinct_obj_set split: event.splits)

lemma distinct_formData_start: "distinct (map fst (formData (ws (monitor_start b))))"
  by (simp add: monitor_start_def monitor_mount_def issue_w_def monitor_init_def)

lemma monitor_sends:
  "selectedHub (ws w) \<noteq> [] \<Longrightarrow>
   payload (last (sent (wb (monitor_step B (Click ''predict'') w))))
     = JsonBody (monitor_payload B (wb w) (ws w))"
  by (simp add: monitor_handlePredict_def Let_def issue_w_def issue_def monitor_payload_def)

lemma distribution_sends:
  "selectedHub_d (ws w) \<noteq> [] \<Longrightarrow>
   payload (last (sent (wb (distribution_step B (Click ''predict'') w))))
     = JsonBody (distribution_payload (wb w) (ws w))"
  by (simp add: distribution_handlePredict_def Let_def issue_w_def issue_def distribution_payload_def axiosAuth_d_def)

lemma rows_history:
  "rows history_row xs = (if list_ex nullish xs then Inl TypeError else Inr (map history_cells xs))"
  by (induction xs) (auto simp: history_row_def)

lemma has_length_arr: "has_length B (JArr rs) = (rs \<noteq> [])"
  by (simp add: has_length_def gt_zero_def to_number_def)

lemmas start_defs =
  monitor_start_def monitor_mount_def distribution_start_def distribution_mount_def
  dashboard_start_def dashboard_mount_def session_of_def mcCode_def token_def missing_def
  item_str_def issue_w_def issue_def navigate_def get_plain_def axiosAuth_d_def axiosAuth_h_def
  bearer_def API_BASE_def monitor_init_def distribution_init_def dashboard_init_def

lemmas monitor_handler_defs =
  monitor_handlePredict_def monitor_fetchTrend_def monitor_fetchYearlyTrend_def
  monitor_fetchAnomalies_def monitor_fetchRecords_def

lemmas distribution_handler_defs =
  distribution_handlePredict_def distribution_fetchTrend_def distribution_fetchYearlyTrend_def
  distribution_fetchCritical_def distribution_fetchRecords_def

lemmas run_defs =
  monitor_run_def distribution_run_def start_defs monitor_handler_defs distribution_handler_defs
  deliver_def settle_def trend_records_def list_field_def get_def opt_get_def or_else_def Let_def
  sample_trend_body_def sample_list_body_def session_code_only_def session_with_token_def

lemmas view_defs =
  monitor_holding_def distribution_holding_def monitor_slot_def distribution_slot_def cleared_def
  monitor_views_def distribution_views_def monitor_sections_def distribution_sections_def
  has_length_arr has_keys_def

lemmas login_defs =
  logged_in_def handleLogin_response_def handleLogin_def sample_credentials_def
  sample_success_def login_init_def browser_init_def issue_def get_def login_store_def
  setItem_def navigate_def API_BASE_def Let_def

subsection \<open>Login and the session store\<close>

text \<open>
  C2. The login flow on the specification's scenario (user \<open>u1\<close>, password \<open>p1\<close>,
  municipality \<open>MC01\<close>, success answer with token \<open>abc\<close>, code \<open>MC01\<close> and name
  \<open>Test City\<close>) should leave the session store holding exactly the token, the code and
  the name, and go to the dashboard. Evaluated on the code: the store holds the code, the
  name and a \<open>user\<close> item, no \<open>access_token\<close>; \<open>navigate("/dashboard")\<close> is called, and
  the Dashboard, which reads \<open>access_token\<close>, sends the user back to the login page
  without a request.
\<close>

theorem login_success_session:
  "dom (storage (logged_in B)) = {''mc_code'', ''mc_name'', ''user''}
 \<and> storage (logged_in B) ''mc_code'' = Some ''MC01''
 \<and> storage (logged_in B) ''mc_name'' = Some ''Test City''
 \<and> storage (logged_in B) ''user''
      = stringify B (JObj [(''username'', JStr ''u1''), (''mc_code'', JStr ''MC01''),
                           (''mc_name'', JStr ''Test City'')])
 \<and> storage (logged_in B) ''access_token'' = None
 \<and> nav (logged_in B) = [''/dashboard'']
 \<and> nav (wb (dashboard_start (logged_in B))) = [''/dashboard'', ''/login'']
 \<and> length (sent (wb (dashboard_start (logged_in B)))) = 1"
  by (auto simp: login_defs start_defs)

text \<open>
  C3. The token and the municipality code should be set together and cleared together.
  Evaluated on the code after the same login: the code is present and the token is
  absent; logout clears both.
\<close>

theorem session_after_login:
  "token (logged_in B) = None \<and> mcCode (logged_in B) = Some ''MC01''
 \<and> token (handleLogout (logged_in B)) = None \<and> mcCode (handleLogout (logged_in B)) = None"
  by (simp add: login_defs token_def mcCode_def handleLogout_def)

subsection \<open>Mounting a screen\<close>

text \<open>With no municipality code in the storage every screen redirects and issues nothing.\<close>

lemma mount_without_code:
  assumes "missing (mcCode b)"
  shows "sent (wb (monitor_start b)) = sent b" and "last (nav (wb (monitor_start b))) = ''/login''"
    and "sent (wb (distribution_start b)) = sent b"
    and "last (nav (wb (distribution_start b))) = ''/login''"
    and "sent (wb (dashboard_start b)) = sent b"
    and "last (nav (wb (dashboard_start b))) = ''/login''"
  using assms
  by (simp_all add: monitor_start_def monitor_mount_def distribution_start_def
      distribution_mount_def dashboard_start_def dashboard_mount_def navigate_def Let_def
      mcCode_def token_def)

text \<open>
  C5. A screen mounted without an authenticated session should redirect to login and
  issue no request. Evaluated on the code with a storage that has the municipality code
  and no token: DistributionDashboard redirects and still issues the hubs request (with
  \<open>Bearer null\<close>); Monitor does not redirect and issues the hubs request; Dashboard
  redirects and issues nothing.
\<close>

theorem mount_without_token:
  "nav (wb (distribution_start session_code_only)) = [''/login'', ''/login'']
 \<and> sent (wb (distribution_start session_code_only))
     = [\<lparr>http_method = ''GET'', url = ''http://127.0.0.1:8000/api/mc/MC01/hubs'',
         headers = [(''Authorization'', ''Bearer null'')], payload = NoBody\<rparr>]
 \<and> nav (wb (monitor_start session_code_only)) = []
 \<and> sent (wb (monitor_start session_code_only))
     = [\<lparr>http_method = ''GET'', url = ''http://127.0.0.1:8000/api/mc/MC01/hubs'',
         headers = [], payload = NoBody\<rparr>]
 \<and> nav (wb (dashboard_start session_code_only)) = [''/login'']
 \<and> sent (wb (dashboard_start session_code_only)) = []"
  by (simp add: run_defs)

subsection \<open>The Authorization header\<close>

text \<open>
  C6. A protected request should carry \<open>Authorization: Bearer <token>\<close> exactly when
  a token is present and no such header otherwise. Evaluated on the code: without a
  token the hubs request of DistributionDashboard carries \<open>Authorization: Bearer null\<close>;
  with a token the requests of Monitor carry no header at all; Dashboard with a token
  sends \<open>Bearer abc\<close>.
\<close>

theorem authorization_header:
  "map headers (sent (wb (distribution_start session_code_only)))
     = [[(''Authorization'', ''Bearer null'')]]
 \<and> map headers (sent (wb (monitor_run B [SelectHub ''H1'', Click ''trend'']
      (monitor_start session_with_token)))) = [[], []]
 \<and> map headers (sent (wb (dashboard_start session_with_token)))
     = [[(''Authorization'', ''Bearer abc'')]]"
  by (simp add: run_defs)

subsection \<open>An unauthorized response\<close>

text \<open>Dashboard handles it in both of its fetches: the storage is emptied and the router is sent to login.\<close>

lemma dashboard_401_logs_out:
  "storage (wb (dashboard_response q (Rejected (Some (401, d))) w)) = Map.empty
 \<and> nav (wb (dashboard_response q (Rejected (Some (401, d))) w)) = nav (wb w) @ [''/login'']"
  by (cases q)
     (simp_all add: settle_def err_status_def handleLogout_def navigate_def trend_catch_def Let_def)

text \<open>
  C4. A 401 answer to any in-screen fetch should clear the session and redirect to login,
  with no later protected request carrying the stale token. Evaluated on the code: on
  DistributionDashboard a 401 to the critical-summary request leaves the token in the
  storage, does not navigate, shows "No critical events found.", and the next press of
  the button sends the same \<open>Bearer abc\<close> again; on Monitor, over the storage a login
  leaves, a 401 to the anomalies request likewise only sets "No anomalies found.".
\<close>

theorem unauthorized_left_unhandled:
  "storage (wb (distribution_run B [Click ''critical'', Response 1 sample_401]
      (distribution_start session_with_token))) ''access_token'' = Some ''abc''
 \<and> nav (wb (distribution_run B [Click ''critical'', Response 1 sample_401]
      (distribution_start session_with_token))) = []
 \<and> error_d (ws (distribution_run B [Click ''critical'', Response 1 sample_401]
      (distribution_start session_with_token))) = JStr ''No critical events found.''
 \<and> map headers (sent (wb (distribution_run B
      [Click ''critical'', Response 1 sample_401, Click ''critical'']
      (distribution_start session_with_token))))
     = [[(''Authorization'', ''Bearer abc'')], [(''Authorization'', ''Bearer abc'')],
        [(''Authorization'', ''Bearer abc'')]]
 \<and> mcCode (wb (monitor_run B [SelectHub ''H1'', Click ''anomalies'', Response 1 sample_401]
      (monitor_start session_code_only))) = Some ''MC01''
 \<and> nav (wb (monitor_run B [SelectHub ''H1'', Click ''anomalies'', Response 1 sample_401]
      (monitor_start session_code_only))) = []
 \<and> error (ws (monitor_run B [SelectHub ''H1'', Click ''anomalies'', Response 1 sample_401]
      (monitor_start session_code_only))) = JStr ''No anomalies found.''"
  by (simp add: run_defs sample_401_def)

subsection \<open>Prediction without a hub\<close>

text \<open>
  C7. On Monitor and on DistributionDashboard, pressing the prediction button while no
  hub is selected sets the local message "Please select a Hub before prediction." and
  issues no HTTP request: the log of sent requests and the list of waiting
  continuations are what they were.
\<close>

theorem predict_without_hub:
  "(selectedHub (ws w) = [] \<longrightarrow>
      sent (wb (monitor_step B (Click ''predict'') w)) = sent (wb w)
    \<and> inflight (monitor_step B (Click ''predict'') w) = inflight w
    \<and> error (ws (monitor_step B (Click ''predict'') w))
        = JStr ''Please select a Hub before prediction.'')
 \<and> (selectedHub_d (ws v) = [] \<longrightarrow>
      sent (wb (distribution_step B (Click ''predict'') v)) = sent (wb v)
    \<and> inflight (distribution_step B (Click ''predict'') v) = inflight v
    \<and> error_d (ws (distribution_step B (Click ''predict'') v))
        = JStr ''Please select a Hub before prediction.'')"
  by (simp add: monitor_handlePredict_def distribution_handlePredict_def Let_def)

theorem predict_without_hub_witness:
  "selectedHub (ws (monitor_start (session_of [(''mc_code'', ''MC01'')]))) = []
 \<and> selectedHub_d (ws (distribution_start
        (session_of [(''access_token'', ''abc''), (''mc_code'', ''MC01'')]))) = []
 \<and> length (sent (wb (monitor_step sample_builtins (Click ''predict'')
        (monitor_start (session_of [(''mc_code'', ''MC01'')]))))) = 1
 \<and> error (ws (monitor_step sample_builtins (Click ''predict'')
        (monitor_start (session_of [(''mc_code'', ''MC01'')]))))
      = JStr ''Please select a Hub before prediction.''
 \<and> length (sent (wb (distribution_step sample_builtins (Click ''predict'')
        (distribution_start (session_of [(''access_token'', ''abc''), (''mc_code'', ''MC01'')]))))) = 1
 \<and> error_d (ws (distribution_step sample_builtins (Click ''predict'')
        (distribution_start (session_of [(''access_token'', ''abc''), (''mc_code'', ''MC01'')]))))
      = JStr ''Please select a Hub before prediction.''"
proof -
  let ?m = "monitor_start (session_of [(''mc_code'', ''MC01'')])"
  let ?d = "distribution_start (session_of [(''access_token'', ''abc''), (''mc_code'', ''MC01'')])"
  have m: "selectedHub (ws ?m) = []" by (simp add: start_defs)
  have d: "selectedHub_d (ws ?d) = []" by (simp add: start_defs Let_def)
  have sm: "length (sent (wb ?m)) = 1" by (simp add: start_defs)
  have sd: "length (sent (wb ?d)) = 1" by (simp add: start_defs Let_def)
  from predict_without_hub[of ?m sample_builtins ?d] m d sm sd show ?thesis by simp
qed

subsection \<open>The active view and what is rendered\<close>

lemma activeView_response: "activeView (monitor_response q r s) = activeView s"
  by (cases q) (simp_all split: sum.splits)

lemma activeView_step:
  "activeView (ws (monitor_step B e w)) =
     (case e of Click v \<Rightarrow> if v \<in> set monitor_views then Some v else activeView (ws w)
              | _ \<Rightarrow> activeView (ws w))"
proof (cases e)
  case (Click v)
  then show ?thesis
    by (simp add: monitor_handler_defs monitor_views_def Let_def issue_w_def)
next
  case (Response i r)
  then show ?thesis
    by (simp add: deliver_def activeView_response split: option.splits)
qed (simp_all add: monitor_handleChange_def)

lemma activeView_run:
  "activeView (ws (monitor_run B evs w)) = selected monitor_views (activeView (ws w)) evs"
  unfolding monitor_run_def
proof (induction evs arbitrary: w)
  case Nil
  show ?case by simp
next
  case (Cons e evs)
  show ?case by (cases e) (simp_all add: Cons.IH activeView_step del: monitor_step.simps)
qed

lemma sections_active:
  "(k, d) \<in> set (monitor_sections B s) \<Longrightarrow> activeView s = Some k \<and> d = monitor_slot k s"
  by (auto simp: monitor_sections_def monitor_slot_def split: if_splits)

lemma activeView_d_response: "activeView_d (distribution_response q r s) = activeView_d s"
  by (cases q) (simp_all split: sum.splits)

lemma activeView_d_step:
  "activeView_d (ws (distribution_step B e w)) =
     (case e of Click v \<Rightarrow> if v \<in> set distribution_views then Some v else activeView_d (ws w)
              | _ \<Rightarrow> activeView_d (ws w))"
proof (cases e)
  case (Click v)
  then show ?thesis
    by (simp add: distribution_handler_defs distribution_views_def Let_def issue_w_def)
next
  case (Response i r)
  then show ?thesis
    by (simp add: deliver_def activeView_d_response split: option.splits)
qed (simp_all add: distribution_handleChange_def)

lemma activeView_d_run:
  "activeView_d (ws (distribution_run B evs w)) = selected distribution_views (activeView_d (ws w)) evs"
  unfolding distribution_run_def
proof (induction evs arbitrary: w)
  case Nil
  show ?case by simp
next
  case (Cons e evs)
  show ?case by (cases e) (simp_all add: Cons.IH activeView_d_step del: distribution_step.simps)
qed

lemma sections_d_active:
  "(k, d) \<in> set (distribution_sections B s) \<Longrightarrow> activeView_d s = Some k \<and> d = distribution_slot k s"
  by (auto simp: distribution_sections_def distribution_slot_def split: if_splits)

lemma activeView_start: "activeView (ws (monitor_start b)) = None"
  by (simp add: monitor_start_def monitor_mount_def issue_w_def monitor_init_def)

lemma activeView_d_start: "activeView_d (ws (distribution_start b)) = None"
  by (simp add: distribution_start_def distribution_mount_def issue_w_def distribution_init_def Let_def)

text \<open>
  C1, as the code has it. For every sequence of user actions and every order in which
  responses arrive, on Monitor and on DistributionDashboard, a section that is rendered
  belongs to the view most recently selected and draws that view's own state cell. The
  pages keep no sequence numbers; the gate is the \<open>activeView === ...\<close> test of each
  section.
\<close>

theorem rendered_view_is_selected:
  "(\<forall>(k, d) \<in> set (monitor_sections B (ws (monitor_run B evs (monitor_start b)))).
      selected monitor_views None evs = Some k
    \<and> d = monitor_slot k (ws (monitor_run B evs (monitor_start b))))
 \<and> (\<forall>(k, d) \<in> set (distribution_sections B (ws (distribution_run B evs' (distribution_start b')))).
      selected distribution_views None evs' = Some k
    \<and> d = distribution_slot k (ws (distribution_run B evs' (distribution_start b'))))"
proof (intro conjI ballI)
  fix x assume "x \<in> set (monitor_sections B (ws (monitor_run B evs (monitor_start b))))"
  then show "case x of (k, d) \<Rightarrow> selected monitor_views None evs = Some k
    \<and> d = monitor_slot k (ws (monitor_run B evs (monitor_start b)))"
    using sections_active[of "fst x" "snd x" B "ws (monitor_run B evs (monitor_start b))"]
    by (simp add: case_prod_beta activeView_run activeView_start)
next
  fix x assume "x \<in> set (distribution_sections B (ws (distribution_run B evs' (distribution_start b'))))"
  then show "case x of (k, d) \<Rightarrow> selected distribution_views None evs' = Some k
    \<and> d = distribution_slot k (ws (distribution_run B evs' (distribution_start b')))"
    using sections_d_active[of "fst x" "snd x" B "ws (distribution_run B evs' (distribution_start b'))"]
    by (simp add: case_prod_beta activeView_d_run activeView_d_start)
qed

theorem rendered_view_is_selected_witness:
  "(''trend'', JArr [sample_record 1]) \<in> set (monitor_sections sample_builtins
       (ws (monitor_run sample_builtins
              [SelectHub ''H1'', Click ''trend'', Response 1 (Resolved sample_trend_body)]
              (monitor_start session_code_only))))
 \<and> selected monitor_views None
       [SelectHub ''H1'', Click ''trend'', Response 1 (Resolved sample_trend_body)] = Some ''trend''
 \<and> (''critical'', JArr [sample_record 2]) \<in> set (distribution_sections sample_builtins
       (ws (distribution_run sample_builtins
              [Click ''critical'', Response 1 (Resolved sample_list_body)]
              (distribution_start session_with_token))))
 \<and> selected distribution_views None
       [Click ''critical'', Response 1 (Resolved sample_list_body)] = Some ''critical''"
proof -
  let ?m = "[SelectHub ''H1'', Click ''trend'', Response 1 (Resolved sample_trend_body)]"
  let ?d = "[Click ''critical'', Response 1 (Resolved sample_list_body)]"
  have m: "(''trend'', JArr [sample_record 1]) \<in> set (monitor_sections sample_builtins
       (ws (monitor_run sample_builtins ?m (monitor_start session_code_only))))"
    by (simp add: run_defs view_defs)
  have d: "(''critical'', JArr [sample_record 2]) \<in> set (distribution_sections sample_builtins
       (ws (distribution_run sample_builtins ?d (distribution_start session_with_token))))"
    by (simp add: run_defs view_defs)
  from rendered_view_is_selected[of sample_builtins ?m session_code_only ?d session_with_token]
  have "(\<forall>(k, d) \<in> set (monitor_sections sample_builtins
            (ws (monitor_run sample_builtins ?m (monitor_start session_code_only)))).
          selected monitor_views None ?m = Some k)
      \<and> (\<forall>(k, d) \<in> set (distribution_sections sample_builtins
            (ws (distribution_run sample_builtins ?d (distribution_start session_with_token)))).
          selected distribution_views None ?d = Some k)"
    by fast
  with m d show ?thesis by fast
qed

text \<open>
  C1 as stated fails: a response is not dropped when a newer request has been issued.
  Trend is requested for hub H1, then anomalies for hub H2; the trend response arrives
  while the anomalies request is still waiting, and is stored. Pressing Trend again
  renders those H1 records at once, while the new trend request for H2 is waiting.
\<close>

theorem late_response_is_applied:
  "trend (ws (monitor_run sample_builtins
       [SelectHub ''H1'', Click ''trend'', SelectHub ''H2'', Click ''anomalies'']
       (monitor_start session_code_only))) = JArr []
 \<and> inflight (monitor_run sample_builtins
       [SelectHub ''H1'', Click ''trend'', SelectHub ''H2'', Click ''anomalies'']
       (monitor_start session_code_only))
     = [Some HubsReq, Some (TrendReq ''H1''), Some AnomaliesReq]
 \<and> trend (ws (monitor_run sample_builtins
       [SelectHub ''H1'', Click ''trend'', SelectHub ''H2'', Click ''anomalies'',
        Response 1 (Resolved sample_trend_body)]
       (monitor_start session_code_only))) = JArr [sample_record 1]
 \<and> monitor_sections sample_builtins (ws (monitor_run sample_builtins
       [SelectHub ''H1'', Click ''trend'', SelectHub ''H2'', Click ''anomalies'',
        Response 1 (Resolved sample_trend_body), Click ''trend'']
       (monitor_start session_code_only))) = [(''trend'', JArr [sample_record 1])]
 \<and> inflight (monitor_run sample_builtins
       [SelectHub ''H1'', Click ''trend'', SelectHub ''H2'', Click ''anomalies'',
        Response 1 (Resolved sample_trend_body), Click ''trend'']
       (monitor_start session_code_only))
     = [Some HubsReq, None, Some AnomaliesReq, Some (TrendReq ''H2'')]"
  by (simp add: run_defs view_defs)

subsection \<open>Switching views\<close>

lemma slot_response:
  "monitor_req_view q \<noteq> Some k \<Longrightarrow> monitor_slot k (monitor_response q r s) = monitor_slot k s"
  by (cases q) (simp_all add: monitor_slot_def split: sum.splits)

lemma slot_d_response:
  "distribution_req_view q \<noteq> Some k \<Longrightarrow>
   distribution_slot k (distribution_response q r s) = distribution_slot k s"
  by (cases q) (simp_all add: distribution_slot_def split: sum.splits)

lemma holding_subset:
  "set (monitor_holding s) \<subseteq> {v} \<longleftrightarrow>
     (\<forall>k \<in> set monitor_views. k \<noteq> v \<longrightarrow> monitor_slot k s = cleared k)"
  by (auto simp: monitor_holding_def)

lemma holding_d_subset:
  "set (distribution_holding s) \<subseteq> {v} \<longleftrightarrow>
     (\<forall>k \<in> set distribution_views. k \<noteq> v \<longrightarrow> distribution_slot k s = cleared k)"
  by (auto simp: distribution_holding_def)

lemma views_cases:
  "k \<in> set monitor_views \<Longrightarrow>
   k = ''predict'' \<or> k = ''trend'' \<or> k = ''yearly'' \<or> k = ''anomalies'' \<or> k = ''records''"
  by (simp add: monitor_views_def)

lemma views_d_cases:
  "k \<in> set distribution_views \<Longrightarrow>
   k = ''predict'' \<or> k = ''trend'' \<or> k = ''yearly'' \<or> k = ''critical'' \<or> k = ''records''"
  by (simp add: distribution_views_def)

lemma click_clears:
  assumes "v \<in> set monitor_views" and "k \<in> set monitor_views" and "k \<noteq> v"
  shows "monitor_slot k (ws (monitor_step B (Click v) w)) = cleared k"
  using views_cases[OF assms(1)] views_cases[OF assms(2)] assms(3)
  by (elim disjE; simp add: monitor_handler_defs Let_def issue_w_def monitor_slot_def cleared_def)

lemma click_inflight:
  assumes "v \<in> set monitor_views"
  shows "inflight (monitor_step B (Click v) w) = inflight w
       \<or> (\<exists>q. inflight (monitor_step B (Click v) w) = inflight w @ [Some q]
              \<and> monitor_req_view q = Some v)"
  using views_cases[OF assms]
  by (elim disjE; simp add: monitor_handler_defs Let_def issue_w_def)

lemma click_then_response_clears:
  assumes "v \<in> set monitor_views" and "k \<in> set monitor_views" and "k \<noteq> v"
  shows "monitor_slot k (ws (monitor_step B (Response (length (inflight w)) r)
                               (monitor_step B (Click v) w))) = cleared k"
proof -
  let ?w = "monitor_step B (Click v) w"
  from click_inflight[OF assms(1), of B w] show ?thesis
  proof
    assume "inflight ?w = inflight w"
    then show ?thesis using click_clears[OF assms, of B w] by (simp add: deliver_def del: monitor_step.simps(3))
  next
    assume "\<exists>q. inflight ?w = inflight w @ [Some q] \<and> monitor_req_view q = Some v"
    then obtain q where q: "inflight ?w = inflight w @ [Some q]" "monitor_req_view q = Some v" by blast
    then have "monitor_req_view q \<noteq> Some k" using assms(3) by simp
    then show ?thesis using q click_clears[OF assms, of B w]
      by (simp add: deliver_def slot_response del: monitor_step.simps(3))
  qed
qed

lemma click_d_clears:
  assumes "v \<in> set distribution_views" and "k \<in> set distribution_views" and "k \<noteq> v"
  shows "distribution_slot k (ws (distribution_step B (Click v) w)) = cleared k"
  using views_d_cases[OF assms(1)] views_d_cases[OF assms(2)] assms(3)
  by (elim disjE; simp add: distribution_handler_defs Let_def issue_w_def
      distribution_slot_def cleared_def)

lemma click_d_inflight:
  assumes "v \<in> set distribution_views"
  shows "inflight (distribution_step B (Click v) w) = inflight w
       \<or> (\<exists>q. inflight (distribution_step B (Click v) w) = inflight w @ [Some q]
              \<and> distribution_req_view q = Some v)"
  using views_d_cases[OF assms]
  by (elim disjE; simp add: distribution_handler_defs Let_def issue_w_def)

lemma click_d_then_response_clears:
  assumes "v \<in> set distribution_views" and "k \<in> set distribution_views" and "k \<noteq> v"
  shows "distribution_slot k (ws (distribution_step B (Response (length (inflight w)) r)
                               (distribution_step B (Click v) w))) = cleared k"
proof -
  let ?w = "distribution_step B (Click v) w"
  from click_d_inflight[OF assms(1), of B w] show ?thesis
  proof
    assume "inflight ?w = inflight w"
    then show ?thesis using click_d_clears[OF assms, of B w]
      by (simp add: deliver_def del: distribution_step.simps(3))
  next
    assume "\<exists>q. inflight ?w = inflight w @ [Some q] \<and> distribution_req_view q = Some v"
    then obtain q where q: "inflight ?w = inflight w @ [Some q]" "distribution_req_view q = Some v"
      by blast
    then have "distribution_req_view q \<noteq> Some k" using assms(3) by simp
    then show ?thesis using q click_d_clears[OF assms, of B w]
      by (simp add: deliver_def slot_d_response del: distribution_step.simps(3))
  qed
qed

text \<open>
  C8, as the code has it. Every view-switch handler resets the cells of all other views
  before it issues its request: right after the press, and still after the response to
  that very request, no view other than the selected one holds data.
\<close>

theorem switch_clears_other_views:
  "(v \<in> set monitor_views \<longrightarrow>
      set (monitor_holding (ws (monitor_step B (Click v) w))) \<subseteq> {v}
    \<and> set (monitor_holding (ws (monitor_step B (Response (length (inflight w)) r)
                                   (monitor_step B (Click v) w)))) \<subseteq> {v})
 \<and> (v' \<in> set distribution_views \<longrightarrow>
      set (distribution_holding (ws (distribution_step B (Click v') w'))) \<subseteq> {v'}
    \<and> set (distribution_holding (ws (distribution_step B (Response (length (inflight w')) r')
                                   (distribution_step B (Click v') w')))) \<subseteq> {v'})"
  unfolding holding_subset holding_d_subset
  by (intro conjI impI ballI click_clears click_then_response_clears click_d_clears
      click_d_then_response_clears)

theorem switch_clears_other_views_witness:
  "''anomalies'' \<in> set monitor_views
 \<and> monitor_holding (ws (monitor_run sample_builtins
       [SelectHub ''H1'', Click ''trend'', Response 1 (Resolved sample_trend_body)]
       (monitor_start session_code_only))) = [''trend'']
 \<and> set (monitor_holding (ws (monitor_step sample_builtins (Click ''anomalies'')
       (monitor_run sample_builtins
          [SelectHub ''H1'', Click ''trend'', Response 1 (Resolved sample_trend_body)]
          (monitor_start session_code_only))))) \<subseteq> {''anomalies''}
 \<and> ''trend'' \<in> set distribution_views
 \<and> distribution_holding (ws (distribution_run sample_builtins
       [Click ''critical'', Response 1 (Resolved sample_list_body)]
       (distribution_start session_with_token))) = [''critical'']
 \<and> set (distribution_holding (ws (distribution_step sample_builtins (Click ''trend'')
       (distribution_run sample_builtins
          [Click ''critical'', Response 1 (Resolved sample_list_body)]
          (distribution_start session_with_token))))) \<subseteq> {''trend''}"
proof -
  let ?m = "monitor_run sample_builtins
       [SelectHub ''H1'', Click ''trend'', Response 1 (Resolved sample_trend_body)]
       (monitor_start session_code_only)"
  let ?d = "distribution_run sample_builtins
       [Click ''critical'', Response 1 (Resolved sample_list_body)]
       (distribution_start session_with_token)"
  have v: "''anomalies'' \<in> set monitor_views" by (simp add: monitor_views_def)
  have v': "''trend'' \<in> set distribution_views" by (simp add: distribution_views_def)
  have m: "monitor_holding (ws ?m) = [''trend'']" by (simp add: run_defs view_defs)
  have d: "distribution_holding (ws ?d) = [''critical'']" by (simp add: run_defs view_defs)
  from switch_clears_other_views[of "''anomalies''" sample_builtins ?m _ "''trend''" ?d] v v' m d
  show ?thesis by (simp del: monitor_step.simps distribution_step.simps)
qed

text \<open>
  C8 as stated fails in its conclusion that at most one view's data is held at any time:
  the response of an overtaken request refills its cell. After Trend, Anomalies and the
  late trend response the trend cell holds data under the anomalies view; after the
  anomalies response two cells hold data.
\<close>

theorem two_views_hold_data:
  "monitor_holding (ws (monitor_run sample_builtins
       [SelectHub ''H1'', Click ''trend'', Click ''anomalies'',
        Response 1 (Resolved sample_trend_body)]
       (monitor_start session_code_only))) = [''trend'']
 \<and> activeView (ws (monitor_run sample_builtins
       [SelectHub ''H1'', Click ''trend'', Click ''anomalies'',
        Response 1 (Resolved sample_trend_body)]
       (monitor_start session_code_only))) = Some ''anomalies''
 \<and> monitor_holding (ws (monitor_run sample_builtins
       [SelectHub ''H1'', Click ''trend'', Click ''anomalies'',
        Response 1 (Resolved sample_trend_body), Response 2 (Resolved sample_list_body)]
       (monitor_start session_code_only))) = [''trend'', ''anomalies'']"
  by (simp add: run_defs view_defs)

subsection \<open>The History table\<close>

text \<open>
  C9. When the quality-records endpoint answers a History request with a list of
  records, the Monitor history view draws the first ten of them, in the order received,
  however many the server sent: one row per record of \<open>take 10\<close>. (No section is
  drawn for an empty list, and a \<open>null\<close> among the first ten makes the row expression
  throw.)
\<close>

theorem history_first_ten:
  assumes "selectedHub (ws w) \<noteq> []" and "get data ''Records'' = Inr (JArr rs)"
  shows "monitor_history B (ws (monitor_step B (Response (length (inflight w)) (Resolved data))
                                 (monitor_step B (Click ''records'') w)))
    = (if rs = [] then None
       else if list_ex nullish (take 10 rs) then Some (Inl TypeError)
       else Some (Inr (map history_cells (take 10 rs))))"
  using assms
  by (simp add: monitor_fetchRecords_def Let_def issue_w_def deliver_def settle_def list_field_def or_else_def monitor_history_def has_length_arr history_table_def rows_history)

theorem history_first_ten_witness:
  "selectedHub (ws (monitor_step sample_builtins (SelectHub ''H1'')
        (monitor_start (session_of [(''mc_code'', ''MC01'')])))) \<noteq> []
 \<and> get (JObj [(''Records'', JArr (map sample_record [1, 2, 3, 4, 5, 6, 7, 8, 9, 10, 11, 12]))])
       ''Records''
     = Inr (JArr (map sample_record [1, 2, 3, 4, 5, 6, 7, 8, 9, 10, 11, 12]))
 \<and> monitor_history sample_builtins
      (ws (monitor_step sample_builtins
             (Response 1 (Resolved (JObj [(''Records'',
                JArr (map sample_record [1, 2, 3, 4, 5, 6, 7, 8, 9, 10, 11, 12]))])))
             (monitor_step sample_builtins (Click ''records'')
                (monitor_step sample_builtins (SelectHub ''H1'')
                   (monitor_start (session_of [(''mc_code'', ''MC01'')]))))))
     = Some (Inr (map (\<lambda>i. history_cells (sample_record i)) [1, 2, 3, 4, 5, 6, 7, 8, 9, 10]))"
proof -
  let ?w = "monitor_step sample_builtins (SelectHub ''H1'')
              (monitor_start (session_of [(''mc_code'', ''MC01'')]))"
  let ?rs = "map sample_record [1, 2, 3, 4, 5, 6, 7, 8, 9, 10, 11, 12]"
  have hub: "selectedHub (ws ?w) \<noteq> []" by simp
  have recs: "get (JObj [(''Records'', JArr ?rs)]) ''Records'' = Inr (JArr ?rs)"
    by (simp add: get_def)
  have len: "length (inflight ?w) = 1" by (simp add: start_defs)
  have "list_ex nullish (take 10 ?rs) = False" by (simp add: sample_record_def)
  with history_first_ten[OF hub recs, of sample_builtins] hub recs len show ?thesis
    by (simp del: monitor_step.simps)
qed

subsection \<open>Measurement fields of a prediction payload\<close>

text \<open>
  C10. In every prediction payload that \<open>handlePredict\<close> sends, each measurement
  field is a number that is not \<open>NaN\<close>. Monitor coerces when it builds the payload: a
  field whose \<open>parseFloat\<close> is \<open>NaN\<close> is sent as 0, any other as its \<open>parseFloat\<close>.
  DistributionDashboard coerces in \<open>handleChange\<close> the same way, so its form data, which
  the payload copies, holds such numbers in every reachable state. (An infinity counts
  as a number, as it does for \<open>typeof\<close>.)
\<close>

theorem prediction_payload_numeric:
  "(selectedHub (ws (monitor_run B evs (monitor_start b0))) \<noteq> [] \<longrightarrow>
    map_of (formData (ws (monitor_run B evs (monitor_start b0)))) k = Some x \<longrightarrow>
      (\<exists>p. payload (last (sent (wb (monitor_step B (Click ''predict'')
                    (monitor_run B evs (monitor_start b0))))))
             = JsonBody p
         \<and> get_prop p k = JNum (if parseFloat B x = NaN then Fin 0 else parseFloat B x)
         \<and> numeric (get_prop p k)))
 \<and> (selectedHub_d (ws (distribution_run B evs' (distribution_start b1))) \<noteq> [] \<longrightarrow>
    map_of (formData_d (ws (distribution_run B evs' (distribution_start b1)))) k' = Some x' \<longrightarrow>
      (\<exists>p. payload (last (sent (wb (distribution_step B (Click ''predict'')
                    (distribution_run B evs' (distribution_start b1))))))
             = JsonBody p
         \<and> get_prop p k' = x' \<and> numeric x'))
 \<and> map_of (formData_d (distribution_handleChange B name v d)) name
      = Some (JNum (if parseFloat B (JStr v) = NaN then Fin 0 else parseFloat B (JStr v)))"
proof (intro conjI impI)
  let ?w = "monitor_run B evs (monitor_start b0)"
  assume hub: "selectedHub (ws ?w) \<noteq> []" and fld: "map_of (formData (ws ?w)) k = Some x"
  have "distinct (map fst (formData (ws ?w)))"
    by (simp add: distinct_formData_run distinct_formData_start)
  then have "get_prop (monitor_payload B (wb ?w) (ws ?w)) k
      = JNum (if parseFloat B x = NaN then Fin 0 else parseFloat B x)"
    using fld by (rule monitor_part)
  then show "\<exists>p. payload (last (sent (wb (monitor_step B (Click ''predict'') ?w)))) = JsonBody p
         \<and> get_prop p k = JNum (if parseFloat B x = NaN then Fin 0 else parseFloat B x)
         \<and> numeric (get_prop p k)"
    using monitor_sends[OF hub, of B] by simp
next
  let ?w = "distribution_run B evs' (distribution_start b1)"
  assume hub: "selectedHub_d (ws ?w) \<noteq> []" and fld: "map_of (formData_d (ws ?w)) k' = Some x'"
  have "numeric x' \<and> get_prop (distribution_payload (wb ?w) (ws ?w)) k' = x'"
    using fld by (intro dd_part[where B = B and evs = evs' and ?b0.0 = b1]) simp_all
  then show "\<exists>p. payload (last (sent (wb (distribution_step B (Click ''predict'') ?w)))) = JsonBody p
         \<and> get_prop p k' = x' \<and> numeric x'"
    using distribution_sends[OF hub, of B] by simp
next
  show "map_of (formData_d (distribution_handleChange B name v d)) name
      = Some (JNum (if parseFloat B (JStr v) = NaN then Fin 0 else parseFloat B (JStr v)))"
    by (rule dd_change)
qed

theorem prediction_payload_numeric_witness:
  "selectedHub (ws (monitor_run sample_builtins [SelectHub ''H1'', Change ''pH_Min'' []]
      (monitor_start (session_of [(''mc_code'', ''MC01'')])))) \<noteq> []
 \<and> map_of (formData (ws (monitor_run sample_builtins [SelectHub ''H1'', Change ''pH_Min'' []]
      (monitor_start (session_of [(''mc_code'', ''MC01'')]))))) ''pH_Min'' = Some (JStr [])
 \<and> (\<exists>p. payload (last (sent (wb (monitor_step sample_builtins (Click ''predict'')
          (monitor_run sample_builtins [SelectHub ''H1'', Change ''pH_Min'' []]
             (monitor_start (session_of [(''mc_code'', ''MC01'')]))))))) = JsonBody p
        \<and> get_prop p ''pH_Min'' = JNum (Fin 0))
 \<and> selectedHub_d (ws (distribution_run sample_builtins [SelectHub ''H1'', Change ''Population'' []]
      (distribution_start (session_of [(''access_token'', ''abc''), (''mc_code'', ''MC01'')])))) \<noteq> []
 \<and> map_of (formData_d (ws (distribution_run sample_builtins
        [SelectHub ''H1'', Change ''Population'' []]
        (distribution_start (session_of [(''access_token'', ''abc''), (''mc_code'', ''MC01'')])))))
      ''Population'' = Some (JNum (Fin 0))
 \<and> (\<exists>p. payload (last (sent (wb (distribution_step sample_builtins (Click ''predict'')
          (distribution_run sample_builtins [SelectHub ''H1'', Change ''Population'' []]
             (distribution_start
                (session_of [(''access_token'', ''abc''), (''mc_code'', ''MC01'')]))))))) = JsonBody p
        \<and> get_prop p ''Population'' = JNum (Fin 0))"
proof -
  let ?m = "monitor_run sample_builtins [SelectHub ''H1'', Change ''pH_Min'' []]
              (monitor_start (session_of [(''mc_code'', ''MC01'')]))"
  let ?d = "distribution_run sample_builtins [SelectHub ''H1'', Change ''Population'' []]
              (distribution_start (session_of [(''access_token'', ''abc''), (''mc_code'', ''MC01'')]))"
  have nan: "parseFloat sample_builtins (JStr []) = NaN"
    by (simp add: parseFloat_def sample_builtins_def sample_parseFloat_def)
  have m1: "selectedHub (ws ?m) \<noteq> []"
    by (simp add: monitor_run_def monitor_handleChange_def)
  have m2: "map_of (formData (ws ?m)) ''pH_Min'' = Some (JStr [])"
    by (simp add: monitor_run_def start_defs monitor_handleChange_def)
  have d1: "selectedHub_d (ws ?d) \<noteq> []"
    by (simp add: distribution_run_def distribution_handleChange_def)
  have d2: "map_of (formData_d (ws ?d)) ''Population'' = Some (JNum (Fin 0))"
    by (simp add: distribution_run_def start_defs Let_def distribution_handleChange_def
        or_else_def nan)
  from prediction_payload_numeric[of sample_builtins "[SelectHub ''H1'', Change ''pH_Min'' []]"
      "session_of [(''mc_code'', ''MC01'')]" "''pH_Min''" "JStr []"
      "[SelectHub ''H1'', Change ''Population'' []]"
      "session_of [(''access_token'', ''abc''), (''mc_code'', ''MC01'')]"
      "''Population''" "JNum (Fin 0)" "''Population''" "[]" distribution_init]
    m1 m2 d1 d2 nan
  have "(\<exists>p. payload (last (sent (wb (monitor_step sample_builtins (Click ''predict'') ?m))))
              = JsonBody p
            \<and> get_prop p ''pH_Min'' = JNum (Fin 0) \<and> numeric (get_prop p ''pH_Min''))
      \<and> (\<exists>p. payload (last (sent (wb (distribution_step sample_builtins (Click ''predict'') ?d))))
              = JsonBody p
            \<and> get_prop p ''Population'' = JNum (Fin 0))"
    by (simp del: monitor_step.simps distribution_step.simps)
  with m1 m2 d1 d2 show ?thesis by blast
qed

end
